theory Spec2Isabelle
  imports Complex_Main "HOL-Library.AList" "HOL-Library.Char_ord" "HOL-Library.List_Lexorder"
    "HOL-Library.Multiset"
    "HOL-Library.Option_ord" "HOL-Library.Product_Lexorder"
begin

section \<open>Data model (cart_engine.py, menu_data.py)\<close>

text \<open>
  Python dictionaries are association lists in insertion order with pairwise distinct keys;
  prices (Python floats written as decimal literals) are exact rationals, so the rounding
  of binary floating-point addition is outside the model.  Quantities are Python ints.
\<close>

record MenuItem =
  sku :: string
  name :: string
  category :: string
  price :: rat
  base_price :: rat
  aliases :: "string list"
  size_variations :: "(string \<times> rat) list"
  modifiers :: "string list"
  modifier_synonyms :: "(string \<times> string) list"

record Menu =
  menu_name :: string
  menu_items :: "MenuItem list"
  size_synonyms :: "(string \<times> string) list"
  default_sizes :: "(string \<times> string) list"

record CartItem =
  sku :: string
  name :: string
  quantity :: int
  size :: "string option"
  modifiers :: "string list"
  price :: rat

record Cart =
  items :: "CartItem list"
  total :: rat

subsection \<open>Cart.merge_duplicates\<close>

type_synonym merge_key = "string \<times> string option \<times> string list"

definition key_of :: "CartItem \<Rightarrow> merge_key" where
  "key_of item = (sku item, size item, sort (modifiers item))"

definition merge_item :: "(merge_key \<times> CartItem) list \<Rightarrow> CartItem \<Rightarrow> (merge_key \<times> CartItem) list" where
  "merge_item merged item =
     (let key = key_of item in
      if key \<in> fst ` set merged
      then AList.map_entry key (\<lambda>m. m\<lparr>quantity := quantity m + quantity item\<rparr>) merged
      else merged @ [(key, \<lparr>sku = sku item, name = name item, quantity = quantity item,
                           size = size item, modifiers = modifiers item, price = price item\<rparr>)])"

definition line_total :: "CartItem \<Rightarrow> rat" where
  "line_total item = price item * of_int (quantity item)"

definition merge_duplicates :: "Cart \<Rightarrow> Cart" where
  "merge_duplicates cart =
     (let merged = foldl merge_item [] (items cart);
          its = map snd merged
      in \<lparr>items = its, total = sum_list (map line_total its)\<rparr>)"

text \<open>
  The identity key in the words of the specification: sku, size and the modifiers as a set.
\<close>

definition identity_key :: "CartItem \<Rightarrow> string \<times> string option \<times> string set" where
  "identity_key item = (sku item, size item, set (modifiers item))"

text \<open>The distinct elements of a list, in the order of their first occurrence.\<close>

fun first_occurrences :: "'a list \<Rightarrow> 'a list" where
  "first_occurrences [] = []"
| "first_occurrences (x # xs) = x # removeAll x (first_occurrences xs)"

definition merged_ok :: "(merge_key \<times> CartItem) list \<Rightarrow> bool" where
  "merged_ok m \<longleftrightarrow> distinct (map fst m) \<and> (\<forall>(k, v) \<in> set m. key_of v = k)"

definition key_set :: "merge_key \<Rightarrow> string \<times> string option \<times> string set" where
  "key_set k = (case k of (s, z, ms) \<Rightarrow> (s, z, set ms))"

definition dup_item_a :: CartItem where
  "dup_item_a = \<lparr>sku = ''COF001'', name = ''Regular Brewed Coffee'', quantity = 1,
      size = Some ''medium'', modifiers = [''cream''], price = 209 / 100\<rparr>"

definition dup_item_b :: CartItem where
  "dup_item_b = \<lparr>sku = ''COF001'', name = ''Regular Brewed Coffee'', quantity = 2,
      size = Some ''medium'', modifiers = [''cream'', ''cream''], price = 209 / 100\<rparr>"

definition donut_item :: CartItem where
  "donut_item = \<lparr>sku = ''DON002'', name = ''Chocolate Iced Doughnut'', quantity = 1,
      size = None, modifiers = [''sprinkles''], price = 109 / 100\<rparr>"

definition merge_example :: Cart where
  "merge_example =
     \<lparr>items = [dup_item_a, donut_item, dup_item_a\<lparr>quantity := 3\<rparr>], total = 945 / 100\<rparr>"

subsection \<open>Cart.to_dict\<close>

text \<open>
  Python's \<open>round(x, 2)\<close>, on the exact value: to the nearest multiple of 1/100, a tie going
  to the even one.
\<close>

definition round2 :: "rat \<Rightarrow> rat" where
  "round2 x =
     (let y = x * 100; f = \<lfloor>y\<rfloor>; r = y - of_int f
      in of_int (if r < 1 / 2 then f else if 1 / 2 < r then f + 1
                 else if even f then f else f + 1) / 100)"

text \<open>
  The serialised cart: every item dictionary carries the six fields of the item unchanged,
  so it is kept as a \<open>CartItem\<close>; only the total is rounded.
\<close>

record CartDict =
  dict_items :: "CartItem list"
  dict_total :: rat

definition to_dict :: "Cart \<Rightarrow> CartDict" where
  "to_dict cart =
     \<lparr>dict_items = map (\<lambda>item. \<lparr>sku = sku item, name = name item, quantity = quantity item,
                                   size = size item, modifiers = modifiers item,
                                   price = price item\<rparr>) (items cart),
      dict_total = round2 (total cart)\<rparr>"

subsection \<open>Exceptions\<close>

datatype py_error = TypeError | ValueError | NameError string

subsection \<open>CartEvaluator.exact_match\<close>

type_synonym sort_key = "string \<times> string option \<times> string list"

definition match_key :: "CartItem \<Rightarrow> sort_key" where
  "match_key x = (sku x, size x, modifiers x)"

text \<open>
  \<open>sorted\<close> compares the key tuples with \<open><\<close>.  Two keys with the same sku and with one
  size \<open>None\<close> and the other a string cannot be compared: Python raises \<open>TypeError\<close>, and
  every comparison sort has to compare two such items of one list.  All other keys are
  ordered lexicographically, which is the order of the key type here.
\<close>

definition incomparable :: "CartItem \<Rightarrow> CartItem \<Rightarrow> bool" where
  "incomparable a b \<longleftrightarrow> sku a = sku b \<and> (size a = None) \<noteq> (size b = None)"

definition sort_raises :: "CartItem list \<Rightarrow> bool" where
  "sort_raises xs = list_ex (\<lambda>a. list_ex (\<lambda>b. incomparable a b) xs) xs"

definition sorted_items :: "CartItem list \<Rightarrow> py_error + CartItem list" where
  "sorted_items xs = (if sort_raises xs then Inl TypeError else Inr (sort_key match_key xs))"

fun pairs_match :: "(CartItem \<times> CartItem) list \<Rightarrow> bool" where
  "pairs_match [] = True"
| "pairs_match ((a, e) # ps) =
     (if sku a \<noteq> sku e \<or> quantity a \<noteq> quantity e \<or> size a \<noteq> size e
         \<or> set (modifiers a) \<noteq> set (modifiers e)
      then False else pairs_match ps)"

definition exact_match :: "Cart \<Rightarrow> Cart \<Rightarrow> py_error + bool" where
  "exact_match actual expected =
     (if length (items actual) \<noteq> length (items expected) then Inr False
      else case sorted_items (items actual) of
             Inl err \<Rightarrow> Inl err
           | Inr actual_items \<Rightarrow>
               (case sorted_items (items expected) of
                  Inl err \<Rightarrow> Inl err
                | Inr expected_items \<Rightarrow> Inr (pairs_match (zip actual_items expected_items))))"

subsection \<open>CartEvaluator.calculate_f1\<close>

text \<open>An item of quantity \<open>n\<close> adds its key \<open>n\<close> times (not at all when \<open>n \<le> 0\<close>) to a set.\<close>

definition cart_entries :: "Cart \<Rightarrow> merge_key set" where
  "cart_entries cart =
     set (concat (map (\<lambda>item. replicate (nat (quantity item)) (key_of item)) (items cart)))"

definition calculate_f1 :: "Cart \<Rightarrow> Cart \<Rightarrow> rat" where
  "calculate_f1 actual expected =
     (let actual_items = cart_entries actual;
          expected_items = cart_entries expected
      in if expected_items = {} then (if actual_items = {} then 1 else 0)
         else
           let true_positives = card (actual_items \<inter> expected_items);
               false_positives = card (actual_items - expected_items);
               false_negatives = card (expected_items - actual_items);
               precision = (if true_positives + false_positives > 0
                            then of_nat true_positives / of_nat (true_positives + false_positives)
                            else 0);
               recall = (if true_positives + false_negatives > 0
                         then of_nat true_positives / of_nat (true_positives + false_negatives)
                         else 0)
           in if precision + recall > 0
              then 2 * (precision * recall) / (precision + recall) else 0)"

subsection \<open>CartEvaluator.calculate_item_accuracy\<close>

definition sku_list :: "Cart \<Rightarrow> string list" where
  "sku_list cart = concat (map (\<lambda>item. replicate (nat (quantity item)) (sku item)) (items cart))"

definition calculate_item_accuracy :: "Cart \<Rightarrow> Cart \<Rightarrow> rat" where
  "calculate_item_accuracy actual expected =
     (let actual_skus = sku_list actual;
          expected_skus = sku_list expected
      in if expected_skus = [] then (if actual_skus = [] then 1 else 0)
         else of_nat (length (filter (\<lambda>(a, e). a = e) (zip (sort actual_skus) (sort expected_skus))))
                / of_nat (length expected_skus))"

definition empty_cart :: Cart where
  "empty_cart = \<lparr>items = [], total = 0\<rparr>"

definition sku_disjoint :: "Cart \<Rightarrow> Cart \<Rightarrow> bool" where
  "sku_disjoint a b \<longleftrightarrow> set (map sku (items a)) \<inter> set (map sku (items b)) = {}"

definition match_example :: Cart where
  "match_example = \<lparr>items = [donut_item, dup_item_b, dup_item_a], total = 736 / 100\<rparr>"

definition f1_left :: Cart where
  "f1_left = \<lparr>items = [donut_item], total = 109 / 100\<rparr>"

definition f1_right :: Cart where
  "f1_right = \<lparr>items = [dup_item_a, dup_item_b], total = 627 / 100\<rparr>"

section \<open>Text processing (cart_engine.py)\<close>

text \<open>
  A text is a list of code points below 256 (Latin-1), one \<open>char\<close> each.  The character
  classes are those of Python on that range: \<open>\w\<close> in a \<open>str\<close> pattern, \<open>str.isspace\<close>
  (also \<open>\s\<close> and the separators of \<open>str.split\<close>), \<open>str.lower\<close>, \<open>str.isdigit\<close>, and the
  digits that \<open>int\<close> reads.
\<close>

definition is_word_char :: "char \<Rightarrow> bool" where
  "is_word_char c =
     (let n = (of_char c :: nat)
      in (48 \<le> n \<and> n \<le> 57) \<or> (65 \<le> n \<and> n \<le> 90) \<or> n = 95 \<or> (97 \<le> n \<and> n \<le> 122)
         \<or> n = 170 \<or> n = 178 \<or> n = 179 \<or> n = 181 \<or> n = 185 \<or> n = 186
         \<or> (188 \<le> n \<and> n \<le> 190) \<or> (192 \<le> n \<and> n \<le> 214) \<or> (216 \<le> n \<and> n \<le> 246)
         \<or> 248 \<le> n)"

definition is_space_char :: "char \<Rightarrow> bool" where
  "is_space_char c =
     (let n = (of_char c :: nat)
      in (9 \<le> n \<and> n \<le> 13) \<or> (28 \<le> n \<and> n \<le> 32) \<or> n = 133 \<or> n = 160)"

definition lower_char :: "char \<Rightarrow> char" where
  "lower_char c =
     (let n = (of_char c :: nat)
      in if (65 \<le> n \<and> n \<le> 90) \<or> (192 \<le> n \<and> n \<le> 214) \<or> (216 \<le> n \<and> n \<le> 222)
         then char_of (n + 32) else c)"

definition lower :: "string \<Rightarrow> string" where
  "lower s = map lower_char s"

definition isdigit_char :: "char \<Rightarrow> bool" where
  "isdigit_char c =
     (let n = (of_char c :: nat) in (48 \<le> n \<and> n \<le> 57) \<or> n = 178 \<or> n = 179 \<or> n = 185)"

definition isdecimal_char :: "char \<Rightarrow> bool" where
  "isdecimal_char c = (let n = (of_char c :: nat) in 48 \<le> n \<and> n \<le> 57)"

definition isdigit :: "string \<Rightarrow> bool" where
  "isdigit w \<longleftrightarrow> w \<noteq> [] \<and> list_all isdigit_char w"

text \<open>
  \<open>int(word)\<close> for a word that passed \<open>isdigit\<close>: the decimal value, or \<open>ValueError\<close> when a
  superscript digit is among the characters.
\<close>

definition int_of_digits :: "string \<Rightarrow> py_error + int" where
  "int_of_digits w =
     (if w \<noteq> [] \<and> list_all isdecimal_char w
      then Inr (foldl (\<lambda>acc c. acc * 10 + (int (of_char c) - 48)) 0 w)
      else Inl ValueError)"

subsection \<open>str.split, str.join, str.find, the in operator\<close>

fun split_from :: "string \<Rightarrow> string \<Rightarrow> string list" where
  "split_from cur [] = (if cur = [] then [] else [cur])"
| "split_from cur (c # cs) =
     (if is_space_char c
      then (if cur = [] then split_from [] cs else cur # split_from [] cs)
      else split_from (cur @ [c]) cs)"

definition split :: "string \<Rightarrow> string list" where
  "split s = split_from [] s"

fun join_spaces :: "string list \<Rightarrow> string" where
  "join_spaces [] = []"
| "join_spaces [w] = w"
| "join_spaces (w # ws) = w @ CHR '' '' # join_spaces ws"

fun starts_with :: "(char \<Rightarrow> char \<Rightarrow> bool) \<Rightarrow> string \<Rightarrow> string \<Rightarrow> bool" where
  "starts_with eq [] s = True"
| "starts_with eq (p # ps) [] = False"
| "starts_with eq (p # ps) (c # cs) = (if eq p c then starts_with eq ps cs else False)"

fun find_from :: "string \<Rightarrow> nat \<Rightarrow> string \<Rightarrow> nat option" where
  "find_from sub pos [] = (if sub = [] then Some pos else None)"
| "find_from sub pos (c # cs) =
     (if starts_with (=) sub (c # cs) then Some pos else find_from sub (pos + 1) cs)"

definition find :: "string \<Rightarrow> string \<Rightarrow> nat option" where
  "find s sub = find_from sub 0 s"

definition contains :: "string \<Rightarrow> string \<Rightarrow> bool" where
  "contains s sub \<longleftrightarrow> find s sub \<noteq> None"

subsection \<open>Whole-word patterns\<close>

text \<open>
  The patterns of the engine are all of the form \<open>\b\<close> literal \<open>\b\<close>.  A position is a word
  boundary when exactly one of the characters before and after it is a word character, the
  outside of the text counting as none.  The scan carries whether the previous character
  is a word character, the characters of the last match still to be stepped over, and the
  position.  A match of the empty literal has no width, and the scan then moves on by one.
\<close>

definition boundary :: "bool \<Rightarrow> string \<Rightarrow> bool" where
  "boundary prev_word rest =
     (prev_word \<noteq> (case rest of [] \<Rightarrow> False | c # _ \<Rightarrow> is_word_char c))"

definition match_here :: "(char \<Rightarrow> char \<Rightarrow> bool) \<Rightarrow> string \<Rightarrow> bool \<Rightarrow> string \<Rightarrow> bool" where
  "match_here eq lit prev_word rest =
     (if boundary prev_word rest
      then (if starts_with eq lit rest
            then boundary (if lit = [] then prev_word
                           else is_word_char (last (take (length lit) rest)))
                   (drop (length lit) rest)
            else False)
      else False)"

fun finditer_from ::
  "(char \<Rightarrow> char \<Rightarrow> bool) \<Rightarrow> string \<Rightarrow> nat \<Rightarrow> bool \<Rightarrow> nat \<Rightarrow> string \<Rightarrow> (nat \<times> nat) list" where
  "finditer_from eq lit skip prev_word pos [] =
     (if skip = 0 \<and> match_here eq lit prev_word [] then [(pos, pos + length lit)] else [])"
| "finditer_from eq lit skip prev_word pos (c # cs) =
     (if 0 < skip then finditer_from eq lit (skip - 1) (is_word_char c) (pos + 1) cs
      else if match_here eq lit prev_word (c # cs)
      then (pos, pos + length lit)
             # finditer_from eq lit (length lit - 1) (is_word_char c) (pos + 1) cs
      else finditer_from eq lit 0 (is_word_char c) (pos + 1) cs)"

definition finditer_word :: "string \<Rightarrow> string \<Rightarrow> (nat \<times> nat) list" where
  "finditer_word lit text = finditer_from (=) lit 0 False 0 text"

definition search_word :: "string \<Rightarrow> string \<Rightarrow> bool" where
  "search_word lit text \<longleftrightarrow> finditer_word lit text \<noteq> []"

text \<open>
  \<open>re.sub\<close> of a whole-word literal by the empty string, ignoring case; the literal is one of
  the non-empty correction markers, in lower case.
\<close>

definition eq_ignorecase :: "char \<Rightarrow> char \<Rightarrow> bool" where
  "eq_ignorecase p c \<longleftrightarrow> lower_char c = p"

fun remove_from :: "string \<Rightarrow> nat \<Rightarrow> bool \<Rightarrow> string \<Rightarrow> string" where
  "remove_from lit skip prev_word [] = []"
| "remove_from lit skip prev_word (c # cs) =
     (if 0 < skip then remove_from lit (skip - 1) (is_word_char c) cs
      else if match_here eq_ignorecase lit prev_word (c # cs)
      then remove_from lit (length lit - 1) (is_word_char c) cs
      else c # remove_from lit 0 (is_word_char c) cs)"

definition remove_word :: "string \<Rightarrow> string \<Rightarrow> string" where
  "remove_word lit text = remove_from lit 0 False text"

subsection \<open>CartNormalizer: indexes, normalisation\<close>

definition register_item :: "(string \<times> MenuItem) list \<Rightarrow> MenuItem \<Rightarrow> (string \<times> MenuItem) list" where
  "register_item alias_map item =
     foldl (\<lambda>m alias. AList.update (lower alias) item m)
       (AList.update (lower (MenuItem.name item)) item alias_map) (aliases item)"

definition build_alias_map :: "Menu \<Rightarrow> (string \<times> MenuItem) list" where
  "build_alias_map menu = foldl register_item [] (menu_items menu)"

definition build_modifier_map :: "Menu \<Rightarrow> (string \<times> string) list" where
  "build_modifier_map menu =
     foldl (\<lambda>m item. foldl (\<lambda>m (synonym, canonical). AList.update (lower synonym) canonical m)
                         m (modifier_synonyms item))
       [] (menu_items menu)"

definition normalize_text :: "string \<Rightarrow> string" where
  "normalize_text text =
     lower (join_spaces (split
       (map (\<lambda>c. if is_word_char c \<or> is_space_char c \<or> c = CHR ''-'' \<or> c = CHR 0x27
                  then c else CHR '' '') text)))"

definition corrections :: "string list" where
  "corrections = [''actually'', ''instead'', ''change'', ''make that'', ''switch'']"

definition handle_corrections :: "string \<Rightarrow> string" where
  "handle_corrections text = foldl (\<lambda>t pattern. remove_word pattern t) text corrections"

subsection \<open>CartNormalizer._find_all_items: the mention finder\<close>

record Mention =
  m_start :: nat
  m_end :: nat
  m_alias :: string
  m_item :: MenuItem

definition found_mentions :: "(string \<times> MenuItem) list \<Rightarrow> string \<Rightarrow> Mention list" where
  "found_mentions alias_map text =
     concat (map (\<lambda>(alias, item).
                    map (\<lambda>(s, e). \<lparr>m_start = s, m_end = e, m_alias = alias, m_item = item\<rparr>)
                      (finditer_word alias text))
                 alias_map)"

definition overlaps :: "Mention \<Rightarrow> Mention \<Rightarrow> bool" where
  "overlaps c p \<longleftrightarrow> \<not> (m_end c \<le> m_start p \<or> m_start c \<ge> m_end p)"

text \<open>
  The inner loop runs over \<open>filtered_mentions\<close> by index while it removes from that very
  list: after a removal the index still moves on by one, so the element that slid into the
  freed place is not looked at.  The result is the flag \<open>overlaps\<close> and the list as the loop
  leaves it.
\<close>

function scan_filtered :: "Mention \<Rightarrow> Mention list \<Rightarrow> nat \<Rightarrow> bool \<times> Mention list" where
  "scan_filtered c filtered i =
     (if i < length filtered
      then (let prev = filtered ! i
            in if overlaps c prev
               then (if length (m_alias c) > length (m_alias prev)
                     then scan_filtered c (remove1 prev filtered) (Suc i)
                     else (True, filtered))
               else scan_filtered c filtered (Suc i))
      else (False, filtered))"
  by pat_completeness auto
termination
  by (relation "measure (\<lambda>(c, filtered, i). length filtered - i)")
     (auto simp: length_remove1)

declare scan_filtered.simps [simp del]

fun resolve_overlaps :: "Mention list \<Rightarrow> Mention list \<Rightarrow> Mention list" where
  "resolve_overlaps [] filtered = filtered"
| "resolve_overlaps (mention # rest) filtered =
     (case scan_filtered mention filtered 0 of
        (ov, filtered') \<Rightarrow>
          resolve_overlaps rest (if ov then filtered' else filtered' @ [mention]))"

definition filtered_mentions :: "(string \<times> MenuItem) list \<Rightarrow> string \<Rightarrow> Mention list" where
  "filtered_mentions alias_map text =
     resolve_overlaps (sort_key m_start (found_mentions alias_map text)) []"

text \<open>
  For the statements about the finder: one round of the outer loop, the comparison of alias
  lengths, and a list of mentions no two of which overlap.
\<close>

definition accept :: "Mention \<Rightarrow> Mention list \<Rightarrow> Mention list" where
  "accept c filtered =
     (case scan_filtered c filtered 0 of (ov, filtered') \<Rightarrow> if ov then filtered' else filtered' @ [c])"

definition longer :: "Mention \<Rightarrow> Mention \<Rightarrow> bool" where
  "longer c p \<longleftrightarrow> length (m_alias c) > length (m_alias p)"

definition non_overlapping :: "Mention list \<Rightarrow> bool" where
  "non_overlapping ms = sorted_wrt (\<lambda>a b. \<not> overlaps a b) ms"

subsection \<open>Attribute extraction\<close>

definition number_words :: "(string \<times> int) list" where
  "number_words =
     [(''one'', 1), (''two'', 2), (''three'', 3), (''four'', 4), (''five'', 5),
      (''six'', 6), (''seven'', 7), (''eight'', 8), (''nine'', 9), (''ten'', 10),
      (''a'', 1), (''an'', 1)]"

fun scan_quantity :: "string list \<Rightarrow> py_error + int" where
  "scan_quantity [] = Inr 1"
| "scan_quantity (word # ws) =
     (case map_of number_words word of
        Some n \<Rightarrow> Inr n
      | None \<Rightarrow> if isdigit word then int_of_digits word else scan_quantity ws)"

definition extract_quantity :: "string \<Rightarrow> string \<Rightarrow> py_error + int" where
  "extract_quantity context alias =
     (case find context alias of
        None \<Rightarrow> Inr 1
      | Some alias_pos \<Rightarrow>
          (let before_alias = take alias_pos context;
               words = split before_alias
           in scan_quantity (rev (drop (length words - 5) words))))"

definition extract_size ::
  "(string \<times> string) list \<Rightarrow> (string \<times> string) list \<Rightarrow> string \<Rightarrow> MenuItem \<Rightarrow> string option" where
  "extract_size size_map defaults context item =
     (if size_variations item = [] then None
      else (case List.find (\<lambda>(size_word, canonical_size). search_word size_word context) size_map of
              Some (size_word, canonical_size) \<Rightarrow> Some canonical_size
            | None \<Rightarrow> Some (case map_of defaults (category item) of
                              Some d \<Rightarrow> d | None \<Rightarrow> ''medium'')))"

definition extract_modifiers :: "(string \<times> string) list \<Rightarrow> string \<Rightarrow> MenuItem \<Rightarrow> string list" where
  "extract_modifiers modifier_map context item =
     (let mods = foldl (\<lambda>mods (synonym, canonical).
                          if contains context synonym \<and> canonical \<notin> set mods
                          then mods @ [canonical] else mods)
                   [] modifier_map
      in foldl (\<lambda>mods modifier.
                  if contains context (lower modifier) \<and> modifier \<notin> set mods
                  then mods @ [modifier] else mods)
           mods (MenuItem.modifiers item))"

text \<open>\<open>if size and size in item.size_variations\<close>: the empty string is as false as \<open>None\<close>.\<close>

definition calculate_price :: "MenuItem \<Rightarrow> string option \<Rightarrow> string list \<Rightarrow> rat" where
  "calculate_price item sz mods =
     (case sz of
        None \<Rightarrow> base_price item
      | Some s \<Rightarrow>
          (if s \<noteq> []
           then (case map_of (size_variations item) s of
                   Some delta \<Rightarrow> base_price item + delta
                 | None \<Rightarrow> base_price item)
           else base_price item))"

definition context_of :: "string \<Rightarrow> Mention \<Rightarrow> string" where
  "context_of text mention =
     (let context_start = m_start mention - 50;
          context_end = min (length text) (m_end mention + 100)
      in take (context_end - context_start) (drop context_start text))"

definition make_cart_item :: "Menu \<Rightarrow> string \<Rightarrow> Mention \<Rightarrow> py_error + CartItem" where
  "make_cart_item menu text mention =
     (let item = m_item mention;
          context = context_of text mention
      in case extract_quantity context (m_alias mention) of
           Inl err \<Rightarrow> Inl err
         | Inr qty \<Rightarrow>
             (let sz = extract_size (size_synonyms menu) (default_sizes menu) context item;
                  mods = extract_modifiers (build_modifier_map menu) context item;
                  pr = calculate_price item sz mods
              in Inr \<lparr>sku = MenuItem.sku item, name = MenuItem.name item, quantity = qty,
                      size = sz, modifiers = mods, price = pr\<rparr>))"

fun make_cart_items :: "Menu \<Rightarrow> string \<Rightarrow> Mention list \<Rightarrow> py_error + CartItem list" where
  "make_cart_items menu text [] = Inr []"
| "make_cart_items menu text (mention # rest) =
     (case make_cart_item menu text mention of
        Inl err \<Rightarrow> Inl err
      | Inr cart_item \<Rightarrow>
          (case make_cart_items menu text rest of
             Inl err \<Rightarrow> Inl err
           | Inr its \<Rightarrow> Inr (cart_item # its)))"

definition find_all_items :: "Menu \<Rightarrow> string \<Rightarrow> py_error + CartItem list" where
  "find_all_items menu text =
     make_cart_items menu text (filtered_mentions (build_alias_map menu) text)"

subsection \<open>Cart.add_item and CartNormalizer.parse_order\<close>

definition add_item :: "Cart \<Rightarrow> CartItem \<Rightarrow> Cart" where
  "add_item cart item =
     \<lparr>items = items cart @ [item], total = total cart + price item * of_int (quantity item)\<rparr>"

definition parse_order :: "Menu \<Rightarrow> string \<Rightarrow> py_error + Cart" where
  "parse_order menu text =
     (let normalized = normalize_text (handle_corrections text)
      in case find_all_items menu normalized of
           Inl err \<Rightarrow> Inl err
         | Inr items_found \<Rightarrow> Inr (merge_duplicates (foldl add_item empty_cart items_found)))"

section \<open>Menus (menu_data.py)\<close>

text \<open>The items of a menu are named after the menu and their sku.\<close>

definition small_DON001 :: MenuItem where
  "small_DON001 =
     \<lparr>MenuItem.sku = ''DON001'',
      MenuItem.name = ''Pumpkin Spice Iced Doughnut'',
      category = ''donuts'',
      MenuItem.price = 129 / 100,
      base_price = 129 / 100,
      aliases = [''pumpkin spice donut'', ''pumpkin donut'', ''ps donut'', ''pumpkin iced''],
      size_variations = [],
      MenuItem.modifiers = [],
      modifier_synonyms = []\<rparr>"

definition small_DON002 :: MenuItem where
  "small_DON002 =
     \<lparr>MenuItem.sku = ''DON002'',
      MenuItem.name = ''Chocolate Iced Doughnut'',
      category = ''donuts'',
      MenuItem.price = 109 / 100,
      base_price = 109 / 100,
      aliases = [''chocolate donut'', ''choc donut'', ''chocolate glazed''],
      size_variations = [],
      MenuItem.modifiers = [''sprinkles''],
      modifier_synonyms = [(''with sprinkles'', ''sprinkles''), (''sprinkled'',
          ''sprinkles'')]\<rparr>"

definition small_DON003 :: MenuItem where
  "small_DON003 =
     \<lparr>MenuItem.sku = ''DON003'',
      MenuItem.name = ''Raspberry Filled Doughnut'',
      category = ''donuts'',
      MenuItem.price = 109 / 100,
      base_price = 109 / 100,
      aliases = [''raspberry donut'', ''raspberry filled'', ''rasp filled''],
      size_variations = [],
      MenuItem.modifiers = [],
      modifier_synonyms = []\<rparr>"

definition small_COF001 :: MenuItem where
  "small_COF001 =
     \<lparr>MenuItem.sku = ''COF001'',
      MenuItem.name = ''Regular Brewed Coffee'',
      category = ''coffee'',
      MenuItem.price = 179 / 100,
      base_price = 179 / 100,
      aliases = [''coffee'', ''regular coffee'', ''brewed coffee'', ''black coffee''],
      size_variations = [(''small'', 0), (''medium'', 30 / 100), (''large'', 60 / 100)],
      MenuItem.modifiers = [''cream'', ''sugar'', ''milk''],
      modifier_synonyms = [(''with cream'', ''cream''), (''creamer'', ''cream''), (''sweet'',
          ''sugar'')]\<rparr>"

definition small_COF002 :: MenuItem where
  "small_COF002 =
     \<lparr>MenuItem.sku = ''COF002'',
      MenuItem.name = ''Pumpkin Spice Latte'',
      category = ''coffee'',
      MenuItem.price = 459 / 100,
      base_price = 459 / 100,
      aliases = [''pumpkin spice latte'', ''psl'', ''pumpkin latte'', ''ps latte''],
      size_variations = [(''small'', 0), (''medium'', 50 / 100), (''large'', 100 / 100)],
      MenuItem.modifiers = [''extra shot'', ''whip'', ''no whip'', ''almond milk'', ''oat milk''],
      modifier_synonyms = [(''whipped cream'', ''whip''), (''no whipped cream'',
          ''no whip'')]\<rparr>"

definition SMALL_MENU :: Menu where
  "SMALL_MENU =
     \<lparr>menu_name = ''Small Menu'',
      menu_items = [small_DON001, small_DON002, small_DON003, small_COF001, small_COF002],
      size_synonyms = [(''small'', ''small''), (''s'', ''small''), (''sm'', ''small''),
          (''regular'', ''small''), (''medium'', ''medium''), (''m'', ''medium''), (''med'',
              ''medium''), (''large'', ''large''), (''l'', ''large''), (''lg'', ''large''),
                  (''big'', ''large'')],
      default_sizes = [(''donuts'', ''regular''), (''coffee'', ''medium'')]\<rparr>"

definition large_DON001 :: MenuItem where
  "large_DON001 =
     \<lparr>MenuItem.sku = ''DON001'',
      MenuItem.name = ''Pumpkin Spice Iced Doughnut'',
      category = ''donuts'',
      MenuItem.price = 129 / 100,
      base_price = 129 / 100,
      aliases = [''pumpkin spice donut'', ''pumpkin donut'', ''ps donut'', ''pumpkin iced'',
          ''pumpkin spice'', ''pumpkin glazed'', ''ps iced''],
      size_variations = [],
      MenuItem.modifiers = [],
      modifier_synonyms = []\<rparr>"

definition large_DON002 :: MenuItem where
  "large_DON002 =
     \<lparr>MenuItem.sku = ''DON002'',
      MenuItem.name = ''Pumpkin Spice Cake Doughnut'',
      category = ''donuts'',
      MenuItem.price = 129 / 100,
      base_price = 129 / 100,
      aliases = [''pumpkin cake donut'', ''pumpkin cake'', ''ps cake'', ''pumpkin spice cake'',
          ''cake donut pumpkin''],
      size_variations = [],
      MenuItem.modifiers = [],
      modifier_synonyms = []\<rparr>"

definition large_DON003 :: MenuItem where
  "large_DON003 =
     \<lparr>MenuItem.sku = ''DON003'',
      MenuItem.name = ''Old Fashioned Doughnut'',
      category = ''donuts'',
      MenuItem.price = 129 / 100,
      base_price = 129 / 100,
      aliases = [''old fashioned'', ''old fashioned donut'', ''old fashioned doughnut'',
          ''old fashion'', ''plain cake donut''],
      size_variations = [],
      MenuItem.modifiers = [],
      modifier_synonyms = []\<rparr>"

definition large_DON004 :: MenuItem where
  "large_DON004 =
     \<lparr>MenuItem.sku = ''DON004'',
      MenuItem.name = ''Chocolate Iced Doughnut'',
      category = ''donuts'',
      MenuItem.price = 109 / 100,
      base_price = 109 / 100,
      aliases = [''chocolate donut'', ''choc donut'', ''chocolate glazed'', ''chocolate iced'',
          ''choc iced'', ''chocolate'', ''choc''],
      size_variations = [],
      MenuItem.modifiers = [''sprinkles''],
      modifier_synonyms = [(''with sprinkles'', ''sprinkles''), (''sprinkled'', ''sprinkles''),
          (''rainbow sprinkles'', ''sprinkles''), (''colored sprinkles'', ''sprinkles'')]\<rparr>"

definition large_DON005 :: MenuItem where
  "large_DON005 =
     \<lparr>MenuItem.sku = ''DON005'',
      MenuItem.name = ''Raspberry Filled Doughnut'',
      category = ''donuts'',
      MenuItem.price = 109 / 100,
      base_price = 109 / 100,
      aliases = [''raspberry donut'', ''raspberry filled'', ''rasp filled'',
          ''raspberry jelly'', ''raspberry jam'', ''rasp'', ''raspberry''],
      size_variations = [],
      MenuItem.modifiers = [],
      modifier_synonyms = []\<rparr>"

definition large_DON006 :: MenuItem where
  "large_DON006 =
     \<lparr>MenuItem.sku = ''DON006'',
      MenuItem.name = ''Blueberry Cake Doughnut'',
      category = ''donuts'',
      MenuItem.price = 109 / 100,
      base_price = 109 / 100,
      aliases = [''blueberry donut'', ''blueberry cake'', ''blueberry'',
          ''blueberry cake donut''],
      size_variations = [],
      MenuItem.modifiers = [],
      modifier_synonyms = []\<rparr>"

definition large_DON007 :: MenuItem where
  "large_DON007 =
     \<lparr>MenuItem.sku = ''DON007'',
      MenuItem.name = ''Strawberry Iced Doughnut with Sprinkles'',
      category = ''donuts'',
      MenuItem.price = 109 / 100,
      base_price = 109 / 100,
      aliases = [''strawberry donut'', ''strawberry iced'', ''strawberry glazed'',
          ''strawberry'', ''strawberry with sprinkles'', ''strawberry sprinkled''],
      size_variations = [],
      MenuItem.modifiers = [''sprinkles''],
      modifier_synonyms = [(''with sprinkles'', ''sprinkles''), (''sprinkled'',
          ''sprinkles'')]\<rparr>"

definition large_DON008 :: MenuItem where
  "large_DON008 =
     \<lparr>MenuItem.sku = ''DON008'',
      MenuItem.name = ''Lemon Filled Doughnut'',
      category = ''donuts'',
      MenuItem.price = 109 / 100,
      base_price = 109 / 100,
      aliases = [''lemon donut'', ''lemon filled'', ''lemon jelly'', ''lemon jam'', ''lemon''],
      size_variations = [],
      MenuItem.modifiers = [],
      modifier_synonyms = []\<rparr>"

definition large_DON009 :: MenuItem where
  "large_DON009 =
     \<lparr>MenuItem.sku = ''DON009'',
      MenuItem.name = ''Doughnut Holes'',
      category = ''donuts'',
      MenuItem.price = 399 / 100,
      base_price = 399 / 100,
      aliases = [''donut holes'', ''donut holes dozen'', ''holes'', ''munchkins'',
          ''donut munchkins''],
      size_variations = [],
      MenuItem.modifiers = [],
      modifier_synonyms = []\<rparr>"

definition large_COF001 :: MenuItem where
  "large_COF001 =
     \<lparr>MenuItem.sku = ''COF001'',
      MenuItem.name = ''Pumpkin Spice Coffee'',
      category = ''coffee'',
      MenuItem.price = 259 / 100,
      base_price = 259 / 100,
      aliases = [''pumpkin spice coffee'', ''ps coffee'', ''pumpkin coffee'', ''pumpkin brew''],
      size_variations = [(''small'', 0), (''medium'', 30 / 100), (''large'', 60 / 100)],
      MenuItem.modifiers = [''cream'', ''sugar'', ''milk'', ''extra shot''],
      modifier_synonyms = [(''with cream'', ''cream''), (''creamer'', ''cream''), (''sweet'',
          ''sugar'')]\<rparr>"

definition large_COF002 :: MenuItem where
  "large_COF002 =
     \<lparr>MenuItem.sku = ''COF002'',
      MenuItem.name = ''Pumpkin Spice Latte'',
      category = ''coffee'',
      MenuItem.price = 459 / 100,
      base_price = 459 / 100,
      aliases = [''pumpkin spice latte'', ''psl'', ''pumpkin latte'', ''ps latte'',
          ''pumpkin spice latte''],
      size_variations = [(''small'', 0), (''medium'', 50 / 100), (''large'', 100 / 100)],
      MenuItem.modifiers = [''extra shot'', ''whip'', ''no whip'', ''almond milk'', ''oat milk''],
      modifier_synonyms = [(''whipped cream'', ''whip''), (''no whipped cream'',
          ''no whip'')]\<rparr>"

definition large_COF003 :: MenuItem where
  "large_COF003 =
     \<lparr>MenuItem.sku = ''COF003'',
      MenuItem.name = ''Regular Brewed Coffee'',
      category = ''coffee'',
      MenuItem.price = 179 / 100,
      base_price = 179 / 100,
      aliases = [''coffee'', ''regular coffee'', ''brewed coffee'', ''black coffee'',
          ''regular'', ''house coffee'', ''drip coffee''],
      size_variations = [(''small'', 0), (''medium'', 30 / 100), (''large'', 60 / 100)],
      MenuItem.modifiers = [''cream'', ''sugar'', ''milk''],
      modifier_synonyms = [(''with cream'', ''cream''), (''creamer'', ''cream''), (''sweet'',
          ''sugar'')]\<rparr>"

definition large_COF004 :: MenuItem where
  "large_COF004 =
     \<lparr>MenuItem.sku = ''COF004'',
      MenuItem.name = ''Decaf Brewed Coffee'',
      category = ''coffee'',
      MenuItem.price = 179 / 100,
      base_price = 179 / 100,
      aliases = [''decaf'', ''decaf coffee'', ''decaffeinated'', ''decaf brewed''],
      size_variations = [(''small'', 0), (''medium'', 30 / 100), (''large'', 60 / 100)],
      MenuItem.modifiers = [''cream'', ''sugar'', ''milk''],
      modifier_synonyms = [(''with cream'', ''cream''), (''creamer'', ''cream''), (''sweet'',
          ''sugar'')]\<rparr>"

definition large_COF005 :: MenuItem where
  "large_COF005 =
     \<lparr>MenuItem.sku = ''COF005'',
      MenuItem.name = ''Latte'',
      category = ''coffee'',
      MenuItem.price = 349 / 100,
      base_price = 349 / 100,
      aliases = [''latte'', ''cafe latte'', ''coffee latte''],
      size_variations = [(''small'', 0), (''medium'', 40 / 100), (''large'', 80 / 100)],
      MenuItem.modifiers = [''extra shot'', ''decaf'', ''almond milk'', ''oat milk'',
          ''skim milk'', ''whole milk''],
      modifier_synonyms = [(''almond'', ''almond milk''), (''oat'', ''oat milk''), (''skim'',
          ''skim milk'')]\<rparr>"

definition large_COF006 :: MenuItem where
  "large_COF006 =
     \<lparr>MenuItem.sku = ''COF006'',
      MenuItem.name = ''Cappuccino'',
      category = ''coffee'',
      MenuItem.price = 349 / 100,
      base_price = 349 / 100,
      aliases = [''cappuccino'', ''capp'', ''cappucino''],
      size_variations = [(''small'', 0), (''medium'', 40 / 100), (''large'', 80 / 100)],
      MenuItem.modifiers = [''extra shot'', ''decaf'', ''almond milk'', ''oat milk'',
          ''skim milk''],
      modifier_synonyms = [(''almond'', ''almond milk''), (''oat'', ''oat milk''), (''skim'',
          ''skim milk'')]\<rparr>"

definition large_COF007 :: MenuItem where
  "large_COF007 =
     \<lparr>MenuItem.sku = ''COF007'',
      MenuItem.name = ''Caramel Macchiato'',
      category = ''coffee'',
      MenuItem.price = 349 / 100,
      base_price = 349 / 100,
      aliases = [''caramel macchiato'', ''caramel mac'', ''caramel mach'', ''macchiato''],
      size_variations = [(''small'', 0), (''medium'', 40 / 100), (''large'', 80 / 100)],
      MenuItem.modifiers = [''extra shot'', ''decaf'', ''almond milk'', ''oat milk'',
          ''extra caramel''],
      modifier_synonyms = [(''almond'', ''almond milk''), (''oat'', ''oat milk'')]\<rparr>"

definition large_COF008 :: MenuItem where
  "large_COF008 =
     \<lparr>MenuItem.sku = ''COF008'',
      MenuItem.name = ''Mocha Latte'',
      category = ''coffee'',
      MenuItem.price = 349 / 100,
      base_price = 349 / 100,
      aliases = [''mocha'', ''mocha latte'', ''chocolate latte'', ''choc latte''],
      size_variations = [(''small'', 0), (''medium'', 40 / 100), (''large'', 80 / 100)],
      MenuItem.modifiers = [''extra shot'', ''decaf'', ''almond milk'', ''oat milk'', ''whip'',
          ''no whip''],
      modifier_synonyms = [(''almond'', ''almond milk''), (''oat'', ''oat milk''),
          (''whipped cream'', ''whip'')]\<rparr>"

definition large_COF009 :: MenuItem where
  "large_COF009 =
     \<lparr>MenuItem.sku = ''COF009'',
      MenuItem.name = ''Caramel Mocha Latte'',
      category = ''coffee'',
      MenuItem.price = 349 / 100,
      base_price = 349 / 100,
      aliases = [''caramel mocha'', ''caramel mocha latte'', ''caramel choc latte''],
      size_variations = [(''small'', 0), (''medium'', 40 / 100), (''large'', 80 / 100)],
      MenuItem.modifiers = [''extra shot'', ''decaf'', ''almond milk'', ''oat milk'', ''whip'',
          ''no whip''],
      modifier_synonyms = [(''almond'', ''almond milk''), (''oat'', ''oat milk''),
          (''whipped cream'', ''whip'')]\<rparr>"

definition LARGE_MENU :: Menu where
  "LARGE_MENU =
     \<lparr>menu_name = ''Large Menu'',
      menu_items = [large_DON001, large_DON002, large_DON003, large_DON004, large_DON005,
          large_DON006, large_DON007, large_DON008, large_DON009, large_COF001, large_COF002,
              large_COF003, large_COF004, large_COF005, large_COF006, large_COF007,
                  large_COF008, large_COF009],
      size_synonyms = [(''small'', ''small''), (''s'', ''small''), (''sm'', ''small''),
          (''regular'', ''small''), (''short'', ''small''), (''medium'', ''medium''), (''m'',
              ''medium''), (''med'', ''medium''), (''grande'', ''medium''), (''large'',
                  ''large''), (''l'', ''large''), (''lg'', ''large''), (''big'', ''large''),
                      (''venti'', ''large''), (''extra large'', ''large''), (''xl'',
                          ''large''), (''x-large'', ''large'')],
      default_sizes = [(''donuts'', ''regular''), (''coffee'', ''medium'')]\<rparr>"

definition get_menu :: "string \<Rightarrow> Menu" where
  "get_menu requested =
     (case map_of [(''small'', SMALL_MENU), (''large'', LARGE_MENU)] (lower requested) of
        Some menu \<Rightarrow> menu
      | None \<Rightarrow> SMALL_MENU)"

section \<open>The evaluation harness (evaluate.py)\<close>

text \<open>
  Modelled from the spec: the record \<open>TestScenario\<close> of the module \<open>test_scenarios\<close>, with the
  fields id, description, menu name, input text and expected cart.  The scenarios that
  \<open>run_evaluation\<close> selects are a parameter of the model.
\<close>

record TestScenario =
  scenario_id :: string
  description :: string
  scenario_menu :: string
  input_text :: string
  expected_cart :: Cart

record Metrics =
  metric_exact_match :: bool
  metric_f1 :: rat
  metric_item_accuracy :: rat

type_synonym report_entry = "TestScenario \<times> Cart \<times> Metrics"

text \<open>
  The names that \<open>evaluate.py\<close> binds at module level, by its imports and definitions, and
  the builtins that \<open>run_evaluation\<close> uses.  A name that is in neither (and is no local
  variable) raises \<open>NameError\<close> when it is evaluated.
\<close>

definition evaluate_names :: "string list" where
  "evaluate_names =
     [''argparse'', ''json'', ''logging'', ''sys'', ''datetime'', ''Dict'', ''List'',
      ''CartEvaluator'', ''CartNormalizer'', ''get_menu'', ''TestScenario'',
      ''get_all_scenarios'', ''get_scenarios_by_menu'', ''logger'', ''EvaluationReport'',
      ''run_evaluation'', ''main'',
      ''Exception'', ''len'', ''print'', ''open'']"

definition lookup_name :: "string \<Rightarrow> py_error + unit" where
  "lookup_name nm = (if nm \<in> set evaluate_names then Inr () else Inl (NameError nm))"

text \<open>
  The body of the \<open>try\<close> statement: the handler of \<open>except Exception\<close> evaluates \<open>Cart()\<close>, and
  an exception raised in the handler leaves the function.
\<close>

definition parse_scenario :: "TestScenario \<Rightarrow> py_error + Cart" where
  "parse_scenario scenario =
     (case parse_order (get_menu (scenario_menu scenario)) (input_text scenario) of
        Inr actual_cart \<Rightarrow> Inr actual_cart
      | Inl e \<Rightarrow> (case lookup_name ''Cart'' of
                   Inl err \<Rightarrow> Inl err
                 | Inr u \<Rightarrow> Inr empty_cart))"

fun run_scenarios :: "TestScenario list \<Rightarrow> report_entry list \<Rightarrow> py_error + report_entry list" where
  "run_scenarios [] results = Inr results"
| "run_scenarios (scenario # rest) results =
     (case parse_scenario scenario of
        Inl err \<Rightarrow> Inl err
      | Inr actual_cart \<Rightarrow>
          (case exact_match actual_cart (expected_cart scenario) of
             Inl err \<Rightarrow> Inl err
           | Inr em \<Rightarrow>
               run_scenarios rest
                 (results @ [(scenario, actual_cart,
                    \<lparr>metric_exact_match = em,
                     metric_f1 = calculate_f1 actual_cart (expected_cart scenario),
                     metric_item_accuracy =
                       calculate_item_accuracy actual_cart (expected_cart scenario)\<rparr>)])))"

definition run_evaluation :: "TestScenario list \<Rightarrow> py_error + report_entry list" where
  "run_evaluation scenarios = run_scenarios scenarios []"

definition failing_scenario :: TestScenario where
  "failing_scenario =
     \<lparr>scenario_id = ''X001'', description = ''superscript digit before the item'',
      scenario_menu = ''small'', input_text = CHR 0xB2 # '' coffee'',
      expected_cart = empty_cart\<rparr>"

definition passing_scenario :: TestScenario where
  "passing_scenario =
     \<lparr>scenario_id = ''X002'', description = ''nothing on the menu'',
      scenario_menu = ''small'', input_text = ''Actually, one bagel!'',
      expected_cart = empty_cart\<rparr>"

text \<open>The three whole-word alias matches of the large menu in \<open>pumpkin spice latte\<close>.\<close>

definition mention_spice :: Mention where
  "mention_spice = \<lparr>m_start = 0, m_end = 13, m_alias = ''pumpkin spice'', m_item = large_DON001\<rparr>"

definition mention_spice_latte :: Mention where
  "mention_spice_latte =
     \<lparr>m_start = 0, m_end = 19, m_alias = ''pumpkin spice latte'', m_item = large_COF002\<rparr>"

definition mention_latte :: Mention where
  "mention_latte = \<lparr>m_start = 14, m_end = 19, m_alias = ''latte'', m_item = large_COF005\<rparr>"

section \<open>Verification\<close>

subsection \<open>Items built from mentions\<close>

lemma distinct_synonym_pass:
  "distinct acc \<Longrightarrow>
   distinct (foldl (\<lambda>mods (synonym, canonical).
                      if contains context synonym \<and> canonical \<notin> set mods
                      then mods @ [canonical] else mods) acc modifier_map)"
proof (induction modifier_map arbitrary: acc)
  case Nil
  then show ?case by simp
next
  case (Cons p ps)
  obtain synonym canonical where p: "p = (synonym, canonical)" by (cases p)
  show ?case unfolding p using Cons.prems by (simp add: Cons.IH)
qed

lemma distinct_explicit_pass:
  "distinct acc \<Longrightarrow>
   distinct (foldl (\<lambda>mods modifier.
                      if contains context (lower modifier) \<and> modifier \<notin> set mods
                      then mods @ [modifier] else mods) acc ms)"
proof (induction ms arbitrary: acc)
  case Nil
  then show ?case by simp
next
  case (Cons m ms)
  show ?case using Cons.prems by (simp add: Cons.IH)
qed

lemma distinct_extract_modifiers: "distinct (extract_modifiers modifier_map context item)"
  unfolding extract_modifiers_def Let_def
  by (rule distinct_explicit_pass, rule distinct_synonym_pass) simp

lemma make_cart_item_distinct:
  "make_cart_item menu text mention = Inr ci \<Longrightarrow> distinct (modifiers ci)"
  by (auto simp: make_cart_item_def Let_def distinct_extract_modifiers split: sum.splits)

lemma make_cart_items_distinct:
  "make_cart_items menu text ms = Inr its \<Longrightarrow> \<forall>it \<in> set its. distinct (modifiers it)"
proof (induction ms arbitrary: its)
  case Nil
  then show ?case by simp
next
  case (Cons m ms)
  then show ?case
    by (auto simp: make_cart_item_distinct split: sum.splits)
qed

lemma items_foldl_add_item: "items (foldl add_item cart its) = items cart @ its"
  by (induction its arbitrary: cart) (simp_all add: add_item_def)

lemma found_items_distinct:
  "find_all_items menu text = Inr found \<Longrightarrow>
   \<forall>it \<in> set (items (foldl add_item empty_cart found)). distinct (modifiers it)"
  by (simp add: find_all_items_def items_foldl_add_item empty_cart_def make_cart_items_distinct)

subsection \<open>Evaluation: character classes, menu entries, indexes\<close>

text \<open>
  The character classes at the characters that the examples use, and the fields of the menu
  entries, as rewrite rules: concrete inputs are evaluated with them by the simplifier.
\<close>

lemma char_of_eqI: "of_char c = (n::nat) \<Longrightarrow> char_of n = c"
  by auto

lemma is_word_char_table:
  "\<not> is_word_char (CHR '' '')" "\<not> is_word_char (CHR ''!'')" "\<not> is_word_char (CHR 0x27)"
  "\<not> is_word_char (CHR '','')" "\<not> is_word_char (CHR ''-'')" "\<not> is_word_char (CHR ''.'')"
  "is_word_char (CHR ''0'')" "is_word_char (CHR ''1'')" "is_word_char (CHR ''2'')"
  "is_word_char (CHR ''3'')" "is_word_char (CHR ''4'')" "is_word_char (CHR ''5'')"
  "is_word_char (CHR ''6'')" "is_word_char (CHR ''7'')" "is_word_char (CHR ''8'')"
  "is_word_char (CHR ''9'')" "is_word_char (CHR ''A'')" "is_word_char (CHR ''B'')"
  "is_word_char (CHR ''C'')" "is_word_char (CHR ''D'')" "is_word_char (CHR ''E'')"
  "is_word_char (CHR ''F'')" "is_word_char (CHR ''G'')" "is_word_char (CHR ''H'')"
  "is_word_char (CHR ''I'')" "is_word_char (CHR ''J'')" "is_word_char (CHR ''K'')"
  "is_word_char (CHR ''L'')" "is_word_char (CHR ''M'')" "is_word_char (CHR ''N'')"
  "is_word_char (CHR ''O'')" "is_word_char (CHR ''P'')" "is_word_char (CHR ''Q'')"
  "is_word_char (CHR ''R'')" "is_word_char (CHR ''S'')" "is_word_char (CHR ''T'')"
  "is_word_char (CHR ''U'')" "is_word_char (CHR ''V'')" "is_word_char (CHR ''W'')"
  "is_word_char (CHR ''X'')" "is_word_char (CHR ''Y'')" "is_word_char (CHR ''Z'')"
  "is_word_char (CHR ''a'')" "is_word_char (CHR ''b'')" "is_word_char (CHR ''c'')"
  "is_word_char (CHR ''d'')" "is_word_char (CHR ''e'')" "is_word_char (CHR ''f'')"
  "is_word_char (CHR ''g'')" "is_word_char (CHR ''h'')" "is_word_char (CHR ''i'')"
  "is_word_char (CHR ''j'')" "is_word_char (CHR ''k'')" "is_word_char (CHR ''l'')"
  "is_word_char (CHR ''m'')" "is_word_char (CHR ''n'')" "is_word_char (CHR ''o'')"
  "is_word_char (CHR ''p'')" "is_word_char (CHR ''q'')" "is_word_char (CHR ''r'')"
  "is_word_char (CHR ''s'')" "is_word_char (CHR ''t'')" "is_word_char (CHR ''u'')"
  "is_word_char (CHR ''v'')" "is_word_char (CHR ''w'')" "is_word_char (CHR ''x'')"
  "is_word_char (CHR ''y'')" "is_word_char (CHR ''z'')" "is_word_char (CHR 0xB2)"
  by (simp_all add: is_word_char_def)

lemma is_space_char_table:
  "is_space_char (CHR '' '')" "\<not> is_space_char (CHR ''!'')" "\<not> is_space_char (CHR 0x27)"
  "\<not> is_space_char (CHR '','')" "\<not> is_space_char (CHR ''-'')" "\<not> is_space_char (CHR ''.'')"
  "\<not> is_space_char (CHR ''0'')" "\<not> is_space_char (CHR ''1'')" "\<not> is_space_char (CHR ''2'')"
  "\<not> is_space_char (CHR ''3'')" "\<not> is_space_char (CHR ''4'')" "\<not> is_space_char (CHR ''5'')"
  "\<not> is_space_char (CHR ''6'')" "\<not> is_space_char (CHR ''7'')" "\<not> is_space_char (CHR ''8'')"
  "\<not> is_space_char (CHR ''9'')" "\<not> is_space_char (CHR ''A'')" "\<not> is_space_char (CHR ''B'')"
  "\<not> is_space_char (CHR ''C'')" "\<not> is_space_char (CHR ''D'')" "\<not> is_space_char (CHR ''E'')"
  "\<not> is_space_char (CHR ''F'')" "\<not> is_space_char (CHR ''G'')" "\<not> is_space_char (CHR ''H'')"
  "\<not> is_space_char (CHR ''I'')" "\<not> is_space_char (CHR ''J'')" "\<not> is_space_char (CHR ''K'')"
  "\<not> is_space_char (CHR ''L'')" "\<not> is_space_char (CHR ''M'')" "\<not> is_space_char (CHR ''N'')"
  "\<not> is_space_char (CHR ''O'')" "\<not> is_space_char (CHR ''P'')" "\<not> is_space_char (CHR ''Q'')"
  "\<not> is_space_char (CHR ''R'')" "\<not> is_space_char (CHR ''S'')" "\<not> is_space_char (CHR ''T'')"
  "\<not> is_space_char (CHR ''U'')" "\<not> is_space_char (CHR ''V'')" "\<not> is_space_char (CHR ''W'')"
  "\<not> is_space_char (CHR ''X'')" "\<not> is_space_char (CHR ''Y'')" "\<not> is_space_char (CHR ''Z'')"
  "\<not> is_space_char (CHR ''a'')" "\<not> is_space_char (CHR ''b'')" "\<not> is_space_char (CHR ''c'')"
  "\<not> is_space_char (CHR ''d'')" "\<not> is_space_char (CHR ''e'')" "\<not> is_space_char (CHR ''f'')"
  "\<not> is_space_char (CHR ''g'')" "\<not> is_space_char (CHR ''h'')" "\<not> is_space_char (CHR ''i'')"
  "\<not> is_space_char (CHR ''j'')" "\<not> is_space_char (CHR ''k'')" "\<not> is_space_char (CHR ''l'')"
  "\<not> is_space_char (CHR ''m'')" "\<not> is_space_char (CHR ''n'')" "\<not> is_space_char (CHR ''o'')"
  "\<not> is_space_char (CHR ''p'')" "\<not> is_space_char (CHR ''q'')" "\<not> is_space_char (CHR ''r'')"
  "\<not> is_space_char (CHR ''s'')" "\<not> is_space_char (CHR ''t'')" "\<not> is_space_char (CHR ''u'')"
  "\<not> is_space_char (CHR ''v'')" "\<not> is_space_char (CHR ''w'')" "\<not> is_space_char (CHR ''x'')"
  "\<not> is_space_char (CHR ''y'')" "\<not> is_space_char (CHR ''z'')" "\<not> is_space_char (CHR 0xB2)"
  by (simp_all add: is_space_char_def)

lemma lower_char_table:
  "lower_char (CHR '' '') = CHR '' ''" "lower_char (CHR ''!'') = CHR ''!''"
  "lower_char (CHR 0x27) = CHR 0x27" "lower_char (CHR '','') = CHR '',''"
  "lower_char (CHR ''-'') = CHR ''-''" "lower_char (CHR ''.'') = CHR ''.''"
  "lower_char (CHR ''0'') = CHR ''0''" "lower_char (CHR ''1'') = CHR ''1''"
  "lower_char (CHR ''2'') = CHR ''2''" "lower_char (CHR ''3'') = CHR ''3''"
  "lower_char (CHR ''4'') = CHR ''4''" "lower_char (CHR ''5'') = CHR ''5''"
  "lower_char (CHR ''6'') = CHR ''6''" "lower_char (CHR ''7'') = CHR ''7''"
  "lower_char (CHR ''8'') = CHR ''8''" "lower_char (CHR ''9'') = CHR ''9''"
  "lower_char (CHR ''A'') = CHR ''a''" "lower_char (CHR ''B'') = CHR ''b''"
  "lower_char (CHR ''C'') = CHR ''c''" "lower_char (CHR ''D'') = CHR ''d''"
  "lower_char (CHR ''E'') = CHR ''e''" "lower_char (CHR ''F'') = CHR ''f''"
  "lower_char (CHR ''G'') = CHR ''g''" "lower_char (CHR ''H'') = CHR ''h''"
  "lower_char (CHR ''I'') = CHR ''i''" "lower_char (CHR ''J'') = CHR ''j''"
  "lower_char (CHR ''K'') = CHR ''k''" "lower_char (CHR ''L'') = CHR ''l''"
  "lower_char (CHR ''M'') = CHR ''m''" "lower_char (CHR ''N'') = CHR ''n''"
  "lower_char (CHR ''O'') = CHR ''o''" "lower_char (CHR ''P'') = CHR ''p''"
  "lower_char (CHR ''Q'') = CHR ''q''" "lower_char (CHR ''R'') = CHR ''r''"
  "lower_char (CHR ''S'') = CHR ''s''" "lower_char (CHR ''T'') = CHR ''t''"
  "lower_char (CHR ''U'') = CHR ''u''" "lower_char (CHR ''V'') = CHR ''v''"
  "lower_char (CHR ''W'') = CHR ''w''" "lower_char (CHR ''X'') = CHR ''x''"
  "lower_char (CHR ''Y'') = CHR ''y''" "lower_char (CHR ''Z'') = CHR ''z''"
  "lower_char (CHR ''a'') = CHR ''a''" "lower_char (CHR ''b'') = CHR ''b''"
  "lower_char (CHR ''c'') = CHR ''c''" "lower_char (CHR ''d'') = CHR ''d''"
  "lower_char (CHR ''e'') = CHR ''e''" "lower_char (CHR ''f'') = CHR ''f''"
  "lower_char (CHR ''g'') = CHR ''g''" "lower_char (CHR ''h'') = CHR ''h''"
  "lower_char (CHR ''i'') = CHR ''i''" "lower_char (CHR ''j'') = CHR ''j''"
  "lower_char (CHR ''k'') = CHR ''k''" "lower_char (CHR ''l'') = CHR ''l''"
  "lower_char (CHR ''m'') = CHR ''m''" "lower_char (CHR ''n'') = CHR ''n''"
  "lower_char (CHR ''o'') = CHR ''o''" "lower_char (CHR ''p'') = CHR ''p''"
  "lower_char (CHR ''q'') = CHR ''q''" "lower_char (CHR ''r'') = CHR ''r''"
  "lower_char (CHR ''s'') = CHR ''s''" "lower_char (CHR ''t'') = CHR ''t''"
  "lower_char (CHR ''u'') = CHR ''u''" "lower_char (CHR ''v'') = CHR ''v''"
  "lower_char (CHR ''w'') = CHR ''w''" "lower_char (CHR ''x'') = CHR ''x''"
  "lower_char (CHR ''y'') = CHR ''y''" "lower_char (CHR ''z'') = CHR ''z''"
  "lower_char (CHR 0xB2) = CHR 0xB2"
  by (simp_all add: lower_char_def char_of_eqI)

lemma isdigit_char_table:
  "\<not> isdigit_char (CHR '' '')" "\<not> isdigit_char (CHR ''!'')" "\<not> isdigit_char (CHR 0x27)"
  "\<not> isdigit_char (CHR '','')" "\<not> isdigit_char (CHR ''-'')" "\<not> isdigit_char (CHR ''.'')"
  "isdigit_char (CHR ''0'')" "isdigit_char (CHR ''1'')" "isdigit_char (CHR ''2'')"
  "isdigit_char (CHR ''3'')" "isdigit_char (CHR ''4'')" "isdigit_char (CHR ''5'')"
  "isdigit_char (CHR ''6'')" "isdigit_char (CHR ''7'')" "isdigit_char (CHR ''8'')"
  "isdigit_char (CHR ''9'')" "\<not> isdigit_char (CHR ''A'')" "\<not> isdigit_char (CHR ''B'')"
  "\<not> isdigit_char (CHR ''C'')" "\<not> isdigit_char (CHR ''D'')" "\<not> isdigit_char (CHR ''E'')"
  "\<not> isdigit_char (CHR ''F'')" "\<not> isdigit_char (CHR ''G'')" "\<not> isdigit_char (CHR ''H'')"
  "\<not> isdigit_char (CHR ''I'')" "\<not> isdigit_char (CHR ''J'')" "\<not> isdigit_char (CHR ''K'')"
  "\<not> isdigit_char (CHR ''L'')" "\<not> isdigit_char (CHR ''M'')" "\<not> isdigit_char (CHR ''N'')"
  "\<not> isdigit_char (CHR ''O'')" "\<not> isdigit_char (CHR ''P'')" "\<not> isdigit_char (CHR ''Q'')"
  "\<not> isdigit_char (CHR ''R'')" "\<not> isdigit_char (CHR ''S'')" "\<not> isdigit_char (CHR ''T'')"
  "\<not> isdigit_char (CHR ''U'')" "\<not> isdigit_char (CHR ''V'')" "\<not> isdigit_char (CHR ''W'')"
  "\<not> isdigit_char (CHR ''X'')" "\<not> isdigit_char (CHR ''Y'')" "\<not> isdigit_char (CHR ''Z'')"
  "\<not> isdigit_char (CHR ''a'')" "\<not> isdigit_char (CHR ''b'')" "\<not> isdigit_char (CHR ''c'')"
  "\<not> isdigit_char (CHR ''d'')" "\<not> isdigit_char (CHR ''e'')" "\<not> isdigit_char (CHR ''f'')"
  "\<not> isdigit_char (CHR ''g'')" "\<not> isdigit_char (CHR ''h'')" "\<not> isdigit_char (CHR ''i'')"
  "\<not> isdigit_char (CHR ''j'')" "\<not> isdigit_char (CHR ''k'')" "\<not> isdigit_char (CHR ''l'')"
  "\<not> isdigit_char (CHR ''m'')" "\<not> isdigit_char (CHR ''n'')" "\<not> isdigit_char (CHR ''o'')"
  "\<not> isdigit_char (CHR ''p'')" "\<not> isdigit_char (CHR ''q'')" "\<not> isdigit_char (CHR ''r'')"
  "\<not> isdigit_char (CHR ''s'')" "\<not> isdigit_char (CHR ''t'')" "\<not> isdigit_char (CHR ''u'')"
  "\<not> isdigit_char (CHR ''v'')" "\<not> isdigit_char (CHR ''w'')" "\<not> isdigit_char (CHR ''x'')"
  "\<not> isdigit_char (CHR ''y'')" "\<not> isdigit_char (CHR ''z'')" "isdigit_char (CHR 0xB2)"
  by (simp_all add: isdigit_char_def)

lemma isdecimal_char_table:
  "\<not> isdecimal_char (CHR '' '')" "\<not> isdecimal_char (CHR ''!'')" "\<not> isdecimal_char (CHR 0x27)"
  "\<not> isdecimal_char (CHR '','')" "\<not> isdecimal_char (CHR ''-'')" "\<not> isdecimal_char (CHR ''.'')"
  "isdecimal_char (CHR ''0'')" "isdecimal_char (CHR ''1'')" "isdecimal_char (CHR ''2'')"
  "isdecimal_char (CHR ''3'')" "isdecimal_char (CHR ''4'')" "isdecimal_char (CHR ''5'')"
  "isdecimal_char (CHR ''6'')" "isdecimal_char (CHR ''7'')" "isdecimal_char (CHR ''8'')"
  "isdecimal_char (CHR ''9'')" "\<not> isdecimal_char (CHR ''A'')" "\<not> isdecimal_char (CHR ''B'')"
  "\<not> isdecimal_char (CHR ''C'')" "\<not> isdecimal_char (CHR ''D'')" "\<not> isdecimal_char (CHR ''E'')"
  "\<not> isdecimal_char (CHR ''F'')" "\<not> isdecimal_char (CHR ''G'')" "\<not> isdecimal_char (CHR ''H'')"
  "\<not> isdecimal_char (CHR ''I'')" "\<not> isdecimal_char (CHR ''J'')" "\<not> isdecimal_char (CHR ''K'')"
  "\<not> isdecimal_char (CHR ''L'')" "\<not> isdecimal_char (CHR ''M'')" "\<not> isdecimal_char (CHR ''N'')"
  "\<not> isdecimal_char (CHR ''O'')" "\<not> isdecimal_char (CHR ''P'')" "\<not> isdecimal_char (CHR ''Q'')"
  "\<not> isdecimal_char (CHR ''R'')" "\<not> isdecimal_char (CHR ''S'')" "\<not> isdecimal_char (CHR ''T'')"
  "\<not> isdecimal_char (CHR ''U'')" "\<not> isdecimal_char (CHR ''V'')" "\<not> isdecimal_char (CHR ''W'')"
  "\<not> isdecimal_char (CHR ''X'')" "\<not> isdecimal_char (CHR ''Y'')" "\<not> isdecimal_char (CHR ''Z'')"
  "\<not> isdecimal_char (CHR ''a'')" "\<not> isdecimal_char (CHR ''b'')" "\<not> isdecimal_char (CHR ''c'')"
  "\<not> isdecimal_char (CHR ''d'')" "\<not> isdecimal_char (CHR ''e'')" "\<not> isdecimal_char (CHR ''f'')"
  "\<not> isdecimal_char (CHR ''g'')" "\<not> isdecimal_char (CHR ''h'')" "\<not> isdecimal_char (CHR ''i'')"
  "\<not> isdecimal_char (CHR ''j'')" "\<not> isdecimal_char (CHR ''k'')" "\<not> isdecimal_char (CHR ''l'')"
  "\<not> isdecimal_char (CHR ''m'')" "\<not> isdecimal_char (CHR ''n'')" "\<not> isdecimal_char (CHR ''o'')"
  "\<not> isdecimal_char (CHR ''p'')" "\<not> isdecimal_char (CHR ''q'')" "\<not> isdecimal_char (CHR ''r'')"
  "\<not> isdecimal_char (CHR ''s'')" "\<not> isdecimal_char (CHR ''t'')" "\<not> isdecimal_char (CHR ''u'')"
  "\<not> isdecimal_char (CHR ''v'')" "\<not> isdecimal_char (CHR ''w'')" "\<not> isdecimal_char (CHR ''x'')"
  "\<not> isdecimal_char (CHR ''y'')" "\<not> isdecimal_char (CHR ''z'')" "\<not> isdecimal_char (CHR 0xB2)"
  by (simp_all add: isdecimal_char_def)

lemmas char_tables = is_word_char_table is_space_char_table lower_char_table
  isdigit_char_table isdecimal_char_table

lemma small_DON001_simps:
  "MenuItem.sku small_DON001 = ''DON001''"
  "MenuItem.name small_DON001 = ''Pumpkin Spice Iced Doughnut''"
  "category small_DON001 = ''donuts''"
  "MenuItem.price small_DON001 = 129 / 100"
  "base_price small_DON001 = 129 / 100"
  "aliases small_DON001 = [''pumpkin spice donut'', ''pumpkin donut'', ''ps donut'',
      ''pumpkin iced'']"
  "size_variations small_DON001 = []"
  "MenuItem.modifiers small_DON001 = []"
  "modifier_synonyms small_DON001 = []"
  by (simp_all add: small_DON001_def)

lemma small_DON002_simps:
  "MenuItem.sku small_DON002 = ''DON002''"
  "MenuItem.name small_DON002 = ''Chocolate Iced Doughnut''"
  "category small_DON002 = ''donuts''"
  "MenuItem.price small_DON002 = 109 / 100"
  "base_price small_DON002 = 109 / 100"
  "aliases small_DON002 = [''chocolate donut'', ''choc donut'', ''chocolate glazed'']"
  "size_variations small_DON002 = []"
  "MenuItem.modifiers small_DON002 = [''sprinkles'']"
  "modifier_synonyms small_DON002 = [(''with sprinkles'', ''sprinkles''), (''sprinkled'',
      ''sprinkles'')]"
  by (simp_all add: small_DON002_def)

lemma small_DON003_simps:
  "MenuItem.sku small_DON003 = ''DON003''"
  "MenuItem.name small_DON003 = ''Raspberry Filled Doughnut''"
  "category small_DON003 = ''donuts''"
  "MenuItem.price small_DON003 = 109 / 100"
  "base_price small_DON003 = 109 / 100"
  "aliases small_DON003 = [''raspberry donut'', ''raspberry filled'', ''rasp filled'']"
  "size_variations small_DON003 = []"
  "MenuItem.modifiers small_DON003 = []"
  "modifier_synonyms small_DON003 = []"
  by (simp_all add: small_DON003_def)

lemma small_COF001_simps:
  "MenuItem.sku small_COF001 = ''COF001''"
  "MenuItem.name small_COF001 = ''Regular Brewed Coffee''"
  "category small_COF001 = ''coffee''"
  "MenuItem.price small_COF001 = 179 / 100"
  "base_price small_COF001 = 179 / 100"
  "aliases small_COF001 = [''coffee'', ''regular coffee'', ''brewed coffee'', ''black coffee'']"
  "size_variations small_COF001 = [(''small'', 0), (''medium'', 30 / 100), (''large'', 60 / 100)]"
  "MenuItem.modifiers small_COF001 = [''cream'', ''sugar'', ''milk'']"
  "modifier_synonyms small_COF001 = [(''with cream'', ''cream''), (''creamer'', ''cream''),
      (''sweet'', ''sugar'')]"
  by (simp_all add: small_COF001_def)

lemma small_COF002_simps:
  "MenuItem.sku small_COF002 = ''COF002''"
  "MenuItem.name small_COF002 = ''Pumpkin Spice Latte''"
  "category small_COF002 = ''coffee''"
  "MenuItem.price small_COF002 = 459 / 100"
  "base_price small_COF002 = 459 / 100"
  "aliases small_COF002 = [''pumpkin spice latte'', ''psl'', ''pumpkin latte'', ''ps latte'']"
  "size_variations small_COF002 = [(''small'', 0), (''medium'', 50 / 100), (''large'',
      100 / 100)]"
  "MenuItem.modifiers small_COF002 = [''extra shot'', ''whip'', ''no whip'', ''almond milk'',
      ''oat milk'']"
  "modifier_synonyms small_COF002 = [(''whipped cream'', ''whip''), (''no whipped cream'',
      ''no whip'')]"
  by (simp_all add: small_COF002_def)

lemma SMALL_MENU_simps:
  "menu_items SMALL_MENU = [small_DON001, small_DON002, small_DON003, small_COF001, small_COF002]"
  "size_synonyms SMALL_MENU = [(''small'', ''small''), (''s'', ''small''), (''sm'', ''small''),
      (''regular'', ''small''), (''medium'', ''medium''), (''m'', ''medium''), (''med'',
          ''medium''), (''large'', ''large''), (''l'', ''large''), (''lg'', ''large''),
              (''big'', ''large'')]"
  "default_sizes SMALL_MENU = [(''donuts'', ''regular''), (''coffee'', ''medium'')]"
  by (simp_all add: SMALL_MENU_def)

lemma large_DON001_simps:
  "MenuItem.sku large_DON001 = ''DON001''"
  "MenuItem.name large_DON001 = ''Pumpkin Spice Iced Doughnut''"
  "category large_DON001 = ''donuts''"
  "MenuItem.price large_DON001 = 129 / 100"
  "base_price large_DON001 = 129 / 100"
  "aliases large_DON001 = [''pumpkin spice donut'', ''pumpkin donut'', ''ps donut'',
      ''pumpkin iced'', ''pumpkin spice'', ''pumpkin glazed'', ''ps iced'']"
  "size_variations large_DON001 = []"
  "MenuItem.modifiers large_DON001 = []"
  "modifier_synonyms large_DON001 = []"
  by (simp_all add: large_DON001_def)

lemma large_DON002_simps:
  "MenuItem.sku large_DON002 = ''DON002''"
  "MenuItem.name large_DON002 = ''Pumpkin Spice Cake Doughnut''"
  "category large_DON002 = ''donuts''"
  "MenuItem.price large_DON002 = 129 / 100"
  "base_price large_DON002 = 129 / 100"
  "aliases large_DON002 = [''pumpkin cake donut'', ''pumpkin cake'', ''ps cake'',
      ''pumpkin spice cake'', ''cake donut pumpkin'']"
  "size_variations large_DON002 = []"
  "MenuItem.modifiers large_DON002 = []"
  "modifier_synonyms large_DON002 = []"
  by (simp_all add: large_DON002_def)

lemma large_DON003_simps:
  "MenuItem.sku large_DON003 = ''DON003''"
  "MenuItem.name large_DON003 = ''Old Fashioned Doughnut''"
  "category large_DON003 = ''donuts''"
  "MenuItem.price large_DON003 = 129 / 100"
  "base_price large_DON003 = 129 / 100"
  "aliases large_DON003 = [''old fashioned'', ''old fashioned donut'',
      ''old fashioned doughnut'', ''old fashion'', ''plain cake donut'']"
  "size_variations large_DON003 = []"
  "MenuItem.modifiers large_DON003 = []"
  "modifier_synonyms large_DON003 = []"
  by (simp_all add: large_DON003_def)

lemma large_DON004_simps:
  "MenuItem.sku large_DON004 = ''DON004''"
  "MenuItem.name large_DON004 = ''Chocolate Iced Doughnut''"
  "category large_DON004 = ''donuts''"
  "MenuItem.price large_DON004 = 109 / 100"
  "base_price large_DON004 = 109 / 100"
  "aliases large_DON004 = [''chocolate donut'', ''choc donut'', ''chocolate glazed'',
      ''chocolate iced'', ''choc iced'', ''chocolate'', ''choc'']"
  "size_variations large_DON004 = []"
  "MenuItem.modifiers large_DON004 = [''sprinkles'']"
  "modifier_synonyms large_DON004 = [(''with sprinkles'', ''sprinkles''), (''sprinkled'',
      ''sprinkles''), (''rainbow sprinkles'', ''sprinkles''), (''colored sprinkles'',
          ''sprinkles'')]"
  by (simp_all add: large_DON004_def)

lemma large_DON005_simps:
  "MenuItem.sku large_DON005 = ''DON005''"
  "MenuItem.name large_DON005 = ''Raspberry Filled Doughnut''"
  "category large_DON005 = ''donuts''"
  "MenuItem.price large_DON005 = 109 / 100"
  "base_price large_DON005 = 109 / 100"
  "aliases large_DON005 = [''raspberry donut'', ''raspberry filled'', ''rasp filled'',
      ''raspberry jelly'', ''raspberry jam'', ''rasp'', ''raspberry'']"
  "size_variations large_DON005 = []"
  "MenuItem.modifiers large_DON005 = []"
  "modifier_synonyms large_DON005 = []"
  by (simp_all add: large_DON005_def)

lemma large_DON006_simps:
  "MenuItem.sku large_DON006 = ''DON006''"
  "MenuItem.name large_DON006 = ''Blueberry Cake Doughnut''"
  "category large_DON006 = ''donuts''"
  "MenuItem.price large_DON006 = 109 / 100"
  "base_price large_DON006 = 109 / 100"
  "aliases large_DON006 = [''blueberry donut'', ''blueberry cake'', ''blueberry'',
      ''blueberry cake donut'']"
  "size_variations large_DON006 = []"
  "MenuItem.modifiers large_DON006 = []"
  "modifier_synonyms large_DON006 = []"
  by (simp_all add: large_DON006_def)

lemma large_DON007_simps:
  "MenuItem.sku large_DON007 = ''DON007''"
  "MenuItem.name large_DON007 = ''Strawberry Iced Doughnut with Sprinkles''"
  "category large_DON007 = ''donuts''"
  "MenuItem.price large_DON007 = 109 / 100"
  "base_price large_DON007 = 109 / 100"
  "aliases large_DON007 = [''strawberry donut'', ''strawberry iced'', ''strawberry glazed'',
      ''strawberry'', ''strawberry with sprinkles'', ''strawberry sprinkled'']"
  "size_variations large_DON007 = []"
  "MenuItem.modifiers large_DON007 = [''sprinkles'']"
  "modifier_synonyms large_DON007 = [(''with sprinkles'', ''sprinkles''), (''sprinkled'',
      ''sprinkles'')]"
  by (simp_all add: large_DON007_def)

lemma large_DON008_simps:
  "MenuItem.sku large_DON008 = ''DON008''"
  "MenuItem.name large_DON008 = ''Lemon Filled Doughnut''"
  "category large_DON008 = ''donuts''"
  "MenuItem.price large_DON008 = 109 / 100"
  "base_price large_DON008 = 109 / 100"
  "aliases large_DON008 = [''lemon donut'', ''lemon filled'', ''lemon jelly'', ''lemon jam'',
      ''lemon'']"
  "size_variations large_DON008 = []"
  "MenuItem.modifiers large_DON008 = []"
  "modifier_synonyms large_DON008 = []"
  by (simp_all add: large_DON008_def)

lemma large_DON009_simps:
  "MenuItem.sku large_DON009 = ''DON009''"
  "MenuItem.name large_DON009 = ''Doughnut Holes''"
  "category large_DON009 = ''donuts''"
  "MenuItem.price large_DON009 = 399 / 100"
  "base_price large_DON009 = 399 / 100"
  "aliases large_DON009 = [''donut holes'', ''donut holes dozen'', ''holes'', ''munchkins'',
      ''donut munchkins'']"
  "size_variations large_DON009 = []"
  "MenuItem.modifiers large_DON009 = []"
  "modifier_synonyms large_DON009 = []"
  by (simp_all add: large_DON009_def)

lemma large_COF001_simps:
  "MenuItem.sku large_COF001 = ''COF001''"
  "MenuItem.name large_COF001 = ''Pumpkin Spice Coffee''"
  "category large_COF001 = ''coffee''"
  "MenuItem.price large_COF001 = 259 / 100"
  "base_price large_COF001 = 259 / 100"
  "aliases large_COF001 = [''pumpkin spice coffee'', ''ps coffee'', ''pumpkin coffee'',
      ''pumpkin brew'']"
  "size_variations large_COF001 = [(''small'', 0), (''medium'', 30 / 100), (''large'', 60 / 100)]"
  "MenuItem.modifiers large_COF001 = [''cream'', ''sugar'', ''milk'', ''extra shot'']"
  "modifier_synonyms large_COF001 = [(''with cream'', ''cream''), (''creamer'', ''cream''),
      (''sweet'', ''sugar'')]"
  by (simp_all add: large_COF001_def)

lemma large_COF002_simps:
  "MenuItem.sku large_COF002 = ''COF002''"
  "MenuItem.name large_COF002 = ''Pumpkin Spice Latte''"
  "category large_COF002 = ''coffee''"
  "MenuItem.price large_COF002 = 459 / 100"
  "base_price large_COF002 = 459 / 100"
  "aliases large_COF002 = [''pumpkin spice latte'', ''psl'', ''pumpkin latte'', ''ps latte'',
      ''pumpkin spice latte'']"
  "size_variations large_COF002 = [(''small'', 0), (''medium'', 50 / 100), (''large'',
      100 / 100)]"
  "MenuItem.modifiers large_COF002 = [''extra shot'', ''whip'', ''no whip'', ''almond milk'',
      ''oat milk'']"
  "modifier_synonyms large_COF002 = [(''whipped cream'', ''whip''), (''no whipped cream'',
      ''no whip'')]"
  by (simp_all add: large_COF002_def)

lemma large_COF003_simps:
  "MenuItem.sku large_COF003 = ''COF003''"
  "MenuItem.name large_COF003 = ''Regular Brewed Coffee''"
  "category large_COF003 = ''coffee''"
  "MenuItem.price large_COF003 = 179 / 100"
  "base_price large_COF003 = 179 / 100"
  "aliases large_COF003 = [''coffee'', ''regular coffee'', ''brewed coffee'', ''black coffee'',
      ''regular'', ''house coffee'', ''drip coffee'']"
  "size_variations large_COF003 = [(''small'', 0), (''medium'', 30 / 100), (''large'', 60 / 100)]"
  "MenuItem.modifiers large_COF003 = [''cream'', ''sugar'', ''milk'']"
  "modifier_synonyms large_COF003 = [(''with cream'', ''cream''), (''creamer'', ''cream''),
      (''sweet'', ''sugar'')]"
  by (simp_all add: large_COF003_def)

lemma large_COF004_simps:
  "MenuItem.sku large_COF004 = ''COF004''"
  "MenuItem.name large_COF004 = ''Decaf Brewed Coffee''"
  "category large_COF004 = ''coffee''"
  "MenuItem.price large_COF004 = 179 / 100"
  "base_price large_COF004 = 179 / 100"
  "aliases large_COF004 = [''decaf'', ''decaf coffee'', ''decaffeinated'', ''decaf brewed'']"
  "size_variations large_COF004 = [(''small'', 0), (''medium'', 30 / 100), (''large'', 60 / 100)]"
  "MenuItem.modifiers large_COF004 = [''cream'', ''sugar'', ''milk'']"
  "modifier_synonyms large_COF004 = [(''with cream'', ''cream''), (''creamer'', ''cream''),
      (''sweet'', ''sugar'')]"
  by (simp_all add: large_COF004_def)

lemma large_COF005_simps:
  "MenuItem.sku large_COF005 = ''COF005''"
  "MenuItem.name large_COF005 = ''Latte''"
  "category large_COF005 = ''coffee''"
  "MenuItem.price large_COF005 = 349 / 100"
  "base_price large_COF005 = 349 / 100"
  "aliases large_COF005 = [''latte'', ''cafe latte'', ''coffee latte'']"
  "size_variations large_COF005 = [(''small'', 0), (''medium'', 40 / 100), (''large'', 80 / 100)]"
  "MenuItem.modifiers large_COF005 = [''extra shot'', ''decaf'', ''almond milk'', ''oat milk'',
      ''skim milk'', ''whole milk'']"
  "modifier_synonyms large_COF005 = [(''almond'', ''almond milk''), (''oat'', ''oat milk''),
      (''skim'', ''skim milk'')]"
  by (simp_all add: large_COF005_def)

lemma large_COF006_simps:
  "MenuItem.sku large_COF006 = ''COF006''"
  "MenuItem.name large_COF006 = ''Cappuccino''"
  "category large_COF006 = ''coffee''"
  "MenuItem.price large_COF006 = 349 / 100"
  "base_price large_COF006 = 349 / 100"
  "aliases large_COF006 = [''cappuccino'', ''capp'', ''cappucino'']"
  "size_variations large_COF006 = [(''small'', 0), (''medium'', 40 / 100), (''large'', 80 / 100)]"
  "MenuItem.modifiers large_COF006 = [''extra shot'', ''decaf'', ''almond milk'', ''oat milk'',
      ''skim milk'']"
  "modifier_synonyms large_COF006 = [(''almond'', ''almond milk''), (''oat'', ''oat milk''),
      (''skim'', ''skim milk'')]"
  by (simp_all add: large_COF006_def)

lemma large_COF007_simps:
  "MenuItem.sku large_COF007 = ''COF007''"
  "MenuItem.name large_COF007 = ''Caramel Macchiato''"
  "category large_COF007 = ''coffee''"
  "MenuItem.price large_COF007 = 349 / 100"
  "base_price large_COF007 = 349 / 100"
  "aliases large_COF007 = [''caramel macchiato'', ''caramel mac'', ''caramel mach'',
      ''macchiato'']"
  "size_variations large_COF007 = [(''small'', 0), (''medium'', 40 / 100), (''large'', 80 / 100)]"
  "MenuItem.modifiers large_COF007 = [''extra shot'', ''decaf'', ''almond milk'', ''oat milk'',
      ''extra caramel'']"
  "modifier_synonyms large_COF007 = [(''almond'', ''almond milk''), (''oat'', ''oat milk'')]"
  by (simp_all add: large_COF007_def)

lemma large_COF008_simps:
  "MenuItem.sku large_COF008 = ''COF008''"
  "MenuItem.name large_COF008 = ''Mocha Latte''"
  "category large_COF008 = ''coffee''"
  "MenuItem.price large_COF008 = 349 / 100"
  "base_price large_COF008 = 349 / 100"
  "aliases large_COF008 = [''mocha'', ''mocha latte'', ''chocolate latte'', ''choc latte'']"
  "size_variations large_COF008 = [(''small'', 0), (''medium'', 40 / 100), (''large'', 80 / 100)]"
  "MenuItem.modifiers large_COF008 = [''extra shot'', ''decaf'', ''almond milk'', ''oat milk'',
      ''whip'', ''no whip'']"
  "modifier_synonyms large_COF008 = [(''almond'', ''almond milk''), (''oat'', ''oat milk''),
      (''whipped cream'', ''whip'')]"
  by (simp_all add: large_COF008_def)

lemma large_COF009_simps:
  "MenuItem.sku large_COF009 = ''COF009''"
  "MenuItem.name large_COF009 = ''Caramel Mocha Latte''"
  "category large_COF009 = ''coffee''"
  "MenuItem.price large_COF009 = 349 / 100"
  "base_price large_COF009 = 349 / 100"
  "aliases large_COF009 = [''caramel mocha'', ''caramel mocha latte'', ''caramel choc latte'']"
  "size_variations large_COF009 = [(''small'', 0), (''medium'', 40 / 100), (''large'', 80 / 100)]"
  "MenuItem.modifiers large_COF009 = [''extra shot'', ''decaf'', ''almond milk'', ''oat milk'',
      ''whip'', ''no whip'']"
  "modifier_synonyms large_COF009 = [(''almond'', ''almond milk''), (''oat'', ''oat milk''),
      (''whipped cream'', ''whip'')]"
  by (simp_all add: large_COF009_def)

lemma LARGE_MENU_simps:
  "menu_items LARGE_MENU = [large_DON001, large_DON002, large_DON003, large_DON004,
      large_DON005, large_DON006, large_DON007, large_DON008, large_DON009, large_COF001,
          large_COF002, large_COF003, large_COF004, large_COF005, large_COF006, large_COF007,
              large_COF008, large_COF009]"
  "size_synonyms LARGE_MENU = [(''small'', ''small''), (''s'', ''small''), (''sm'', ''small''),
      (''regular'', ''small''), (''short'', ''small''), (''medium'', ''medium''), (''m'',
          ''medium''), (''med'', ''medium''), (''grande'', ''medium''), (''large'', ''large''),
              (''l'', ''large''), (''lg'', ''large''), (''big'', ''large''), (''venti'',
                  ''large''), (''extra large'', ''large''), (''xl'', ''large''), (''x-large'',
                      ''large'')]"
  "default_sizes LARGE_MENU = [(''donuts'', ''regular''), (''coffee'', ''medium'')]"
  by (simp_all add: LARGE_MENU_def)

lemmas small_item_simps = small_DON001_simps small_DON002_simps small_DON003_simps
  small_COF001_simps small_COF002_simps

lemmas large_item_simps = large_DON001_simps large_DON002_simps large_DON003_simps
  large_DON004_simps large_DON005_simps large_DON006_simps large_DON007_simps
    large_DON008_simps large_DON009_simps large_COF001_simps large_COF002_simps
      large_COF003_simps large_COF004_simps large_COF005_simps large_COF006_simps
        large_COF007_simps large_COF008_simps large_COF009_simps

lemmas text_defs = handle_corrections_def corrections_def remove_word_def match_here_def
  boundary_def eq_ignorecase_def normalize_text_def lower_def split_def finditer_word_def
  search_word_def contains_def find_def

lemma small_alias_map:
  "build_alias_map SMALL_MENU =
     [(''pumpkin spice iced doughnut'', small_DON001), (''pumpkin spice donut'', small_DON001),
      (''pumpkin donut'', small_DON001), (''ps donut'', small_DON001),
      (''pumpkin iced'', small_DON001),
      (''chocolate iced doughnut'', small_DON002), (''chocolate donut'', small_DON002),
      (''choc donut'', small_DON002), (''chocolate glazed'', small_DON002),
      (''raspberry filled doughnut'', small_DON003), (''raspberry donut'', small_DON003),
      (''raspberry filled'', small_DON003), (''rasp filled'', small_DON003),
      (''regular brewed coffee'', small_COF001), (''coffee'', small_COF001),
      (''regular coffee'', small_COF001), (''brewed coffee'', small_COF001),
      (''black coffee'', small_COF001),
      (''pumpkin spice latte'', small_COF002), (''psl'', small_COF002),
      (''pumpkin latte'', small_COF002), (''ps latte'', small_COF002)]"
  by (simp add: build_alias_map_def register_item_def SMALL_MENU_simps small_item_simps
      lower_def char_tables)

lemma small_modifier_map:
  "build_modifier_map SMALL_MENU =
     [(''with sprinkles'', ''sprinkles''), (''sprinkled'', ''sprinkles''),
      (''with cream'', ''cream''), (''creamer'', ''cream''), (''sweet'', ''sugar''),
      (''whipped cream'', ''whip''), (''no whipped cream'', ''no whip'')]"
  by (simp add: build_modifier_map_def SMALL_MENU_simps small_item_simps lower_def char_tables)

lemma get_menu_small: "get_menu ''small'' = SMALL_MENU"
  by (simp add: get_menu_def lower_def char_tables)

subsection \<open>Merging duplicates\<close>

lemma key_of_quantity [simp]: "key_of (m\<lparr>quantity := q\<rparr>) = key_of m"
  by (simp add: key_of_def)

lemma map_fst_map_entry: "map fst (AList.map_entry k f xs) = map fst xs"
  by (induction xs) auto

lemma set_map_entry_key:
  "(k', v') \<in> set (AList.map_entry k f xs) \<Longrightarrow>
     (k', v') \<in> set xs \<or> (k' = k \<and> (\<exists>v. (k, v) \<in> set xs \<and> v' = f v))"
  by (induction xs) (auto split: if_splits)

lemma keys_merge_item:
  "map fst (merge_item m it) =
     (if key_of it \<in> set (map fst m) then map fst m else map fst m @ [key_of it])"
  by (simp add: merge_item_def Let_def map_fst_map_entry)

lemma merged_ok_step: "merged_ok m \<Longrightarrow> merged_ok (merge_item m it)"
  unfolding merged_ok_def
proof (intro conjI)
  assume a: "distinct (map fst m) \<and> (\<forall>(k, v)\<in>set m. key_of v = k)"
  show "distinct (map fst (merge_item m it))"
    using a by (simp add: keys_merge_item)
  show "\<forall>(k, v)\<in>set (merge_item m it). key_of v = k"
    using a by (auto simp: merge_item_def Let_def key_of_def dest!: set_map_entry_key)
qed

lemma merged_ok_foldl: "merged_ok m \<Longrightarrow> merged_ok (foldl merge_item m xs)"
  by (induction xs arbitrary: m) (auto simp: merged_ok_step)

lemma merged_ok_Nil: "merged_ok []"
  by (simp add: merged_ok_def)

lemma copy_item: "\<lparr>sku = sku (it::CartItem), name = name it, quantity = quantity it,
     size = size it, modifiers = modifiers it, price = price it\<rparr> = it"
  by simp

lemma foldl_merge_distinct:
  "distinct (map key_of (acc @ ys)) \<Longrightarrow>
   foldl merge_item (map (\<lambda>v. (key_of v, v)) acc) ys = map (\<lambda>v. (key_of v, v)) (acc @ ys)"
proof (induction ys arbitrary: acc)
  case Nil
  then show ?case by simp
next
  case (Cons y ys)
  have "key_of y \<notin> fst ` set (map (\<lambda>v. (key_of v, v)) acc)"
    using Cons.prems by (auto simp: image_iff)
  then have "merge_item (map (\<lambda>v. (key_of v, v)) acc) y = map (\<lambda>v. (key_of v, v)) (acc @ [y])"
    by (simp add: merge_item_def Let_def)
  then show ?case using Cons.IH [of "acc @ [y]"] Cons.prems by simp
qed

lemma merged_ok_repr:
  assumes "merged_ok m"
  shows "m = map (\<lambda>v. (key_of v, v)) (map snd m) \<and> distinct (map key_of (map snd m))"
proof -
  have k: "\<And>p. p \<in> set m \<Longrightarrow> key_of (snd p) = fst p"
    using assms unfolding merged_ok_def by auto
  have 1: "map (\<lambda>v. (key_of v, v)) (map snd m) = m"
    using k by (simp add: map_idI)
  have 2: "map key_of (map snd m) = map fst m"
    using k by simp
  have "distinct (map fst m)" using assms by (simp add: merged_ok_def)
  then have "distinct (map key_of (map snd m))" by (simp only: 2)
  then show ?thesis using 1 by simp
qed

text \<open>
  Claim C5.  For every cart, merging duplicates twice gives the same cart (the same items in
  the same order and the same total) as merging once.
\<close>

theorem merge_duplicates_idempotent:
  "merge_duplicates (merge_duplicates cart) = merge_duplicates cart"
proof -
  define m where "m = foldl merge_item [] (items cart)"
  have ok: "merged_ok m"
    unfolding m_def by (rule merged_ok_foldl [OF merged_ok_Nil])
  from merged_ok_repr [OF ok] have r: "m = map (\<lambda>v. (key_of v, v)) (map snd m)"
    and d: "distinct (map key_of (map snd m))" by simp_all
  have "foldl merge_item [] (map snd m) = map (\<lambda>v. (key_of v, v)) (map snd m)"
    using foldl_merge_distinct [of "[]" "map snd m"] d by simp
  then have "foldl merge_item [] (map snd m) = m" using r by simp
  then show ?thesis
    by (simp add: merge_duplicates_def Let_def m_def)
qed

lemma filter_removeAll: "filter P (removeAll a xs) = filter (\<lambda>k. P k \<and> k \<noteq> a) xs"
  by (induction xs) auto

lemma filter_notin_removeAll:
  "a \<in> K \<Longrightarrow> filter (\<lambda>k. k \<notin> K) (removeAll a xs) = filter (\<lambda>k. k \<notin> K) xs"
  by (induction xs) auto

lemma filter_notin_snoc:
  "filter (\<lambda>k. k \<notin> set (ks @ [a])) xs = filter (\<lambda>k. k \<notin> set ks) (removeAll a xs)"
  by (induction xs) auto

lemma keys_foldl:
  "map fst (foldl merge_item m xs) =
     map fst m @ filter (\<lambda>k. k \<notin> set (map fst m)) (first_occurrences (map key_of xs))"
proof (induction xs arbitrary: m)
  case Nil
  then show ?case by simp
next
  case (Cons x xs)
  show ?case
  proof (cases "key_of x \<in> set (map fst m)")
    case True
    then have "map fst (merge_item m x) = map fst m" by (simp add: keys_merge_item)
    moreover have "filter (\<lambda>k. k \<notin> set (map fst m)) (removeAll (key_of x) (first_occurrences (map key_of xs)))
        = filter (\<lambda>k. k \<notin> set (map fst m)) (first_occurrences (map key_of xs))"
      using True by (rule filter_notin_removeAll)
    ultimately show ?thesis using Cons.IH [of "merge_item m x"] True by simp
  next
    case False
    then have k: "map fst (merge_item m x) = map fst m @ [key_of x]" by (simp add: keys_merge_item)
    have "filter (\<lambda>k. k \<notin> set (map fst m @ [key_of x])) (first_occurrences (map key_of xs))
        = filter (\<lambda>k. k \<notin> set (map fst m)) (removeAll (key_of x) (first_occurrences (map key_of xs)))"
      by (rule filter_notin_snoc)
    then show ?thesis using Cons.IH [of "merge_item m x"] False k by simp
  qed
qed

lemma set_first_occurrences [simp]: "set (first_occurrences xs) = set xs"
  by (induction xs) auto

lemma distinct_first_occurrences [simp]: "distinct (first_occurrences xs)"
  by (induction xs) (auto simp: distinct_removeAll)

lemma first_occurrences_map:
  "inj_on g (set ks) \<Longrightarrow> map g (first_occurrences ks) = first_occurrences (map g ks)"
proof (induction ks)
  case Nil
  then show ?case by simp
next
  case (Cons k ks)
  have "inj_on g (insert k (set (first_occurrences ks)))" using Cons.prems by simp
  then have "map g (removeAll k (first_occurrences ks)) = removeAll (g k) (map g (first_occurrences ks))"
    by (rule map_removeAll_inj_on)
  moreover have "inj_on g (set ks)" using Cons.prems by (simp add: inj_on_def)
  ultimately show ?case using Cons.IH by simp
qed

lemma map_of_merge_item:
  "map_of (merge_item m x) k =
    (if k = key_of x
     then (case map_of m k of
             Some v \<Rightarrow> Some (v\<lparr>quantity := quantity v + quantity x\<rparr>)
           | None \<Rightarrow> Some x)
     else map_of m k)"
proof (cases "key_of x \<in> fst ` set m")
  case True
  then obtain v where "map_of m (key_of x) = Some v"
    by (metis domD dom_map_of_conv_image_fst)
  then show ?thesis using True
    by (simp add: merge_item_def Let_def AList.map_of_map_entry)
next
  case False
  then have "map_of m (key_of x) = None" by (simp add: map_of_eq_None_iff)
  then show ?thesis using False
    by (auto simp: merge_item_def Let_def map_add_def split: option.splits)
qed

lemma quantity_foldl:
  "merged_ok m \<Longrightarrow> (k, v) \<in> set (foldl merge_item m xs) \<Longrightarrow>
   quantity v = (case map_of m k of Some v0 \<Rightarrow> quantity v0 | None \<Rightarrow> 0)
                 + sum_list (map quantity (filter (\<lambda>x. key_of x = k) xs))"
proof (induction xs arbitrary: m)
  case Nil
  then have "map_of m k = Some v" by (simp add: merged_ok_def)
  then show ?case by simp
next
  case (Cons x xs)
  have ok: "merged_ok (merge_item m x)" using Cons.prems(1) by (rule merged_ok_step)
  have "quantity v = (case map_of (merge_item m x) k of Some v0 \<Rightarrow> quantity v0 | None \<Rightarrow> 0)
                 + sum_list (map quantity (filter (\<lambda>x. key_of x = k) xs))"
    using Cons.IH [OF ok] Cons.prems(2) by simp
  then show ?case
    by (auto simp: map_of_merge_item split: option.splits)
qed

lemma distinct_mods_step:
  "\<forall>(k, v) \<in> set m. distinct (modifiers v) \<Longrightarrow> distinct (modifiers x) \<Longrightarrow>
   \<forall>(k, v) \<in> set (merge_item m x). distinct (modifiers v)"
  by (auto simp: merge_item_def Let_def dest!: set_map_entry_key)

lemma distinct_mods_foldl:
  "\<forall>(k, v) \<in> set m. distinct (modifiers v) \<Longrightarrow> \<forall>x \<in> set xs. distinct (modifiers x) \<Longrightarrow>
   \<forall>(k, v) \<in> set (foldl merge_item m xs). distinct (modifiers v)"
proof (induction xs arbitrary: m)
  case Nil
  then show ?case by simp
next
  case (Cons x xs)
  have "\<forall>(k, v) \<in> set (merge_item m x). distinct (modifiers v)"
    using Cons.prems by (intro distinct_mods_step) auto
  then show ?case using Cons.IH [of "merge_item m x"] Cons.prems(2) by simp
qed

lemma sort_eq_iff_set_eq:
  "distinct (xs :: string list) \<Longrightarrow> distinct ys \<Longrightarrow> sort xs = sort ys \<longleftrightarrow> set xs = set ys"
proof
  assume "sort xs = sort ys"
  then have "set (sort xs) = set (sort ys)" by simp
  then show "set xs = set ys" by simp
next
  assume d: "distinct xs" "distinct ys" and "set xs = set ys"
  then show "sort xs = sort ys"
    by (intro sorted_distinct_set_unique) simp_all
qed

lemma key_eq_iff_identity:
  "distinct (modifiers a) \<Longrightarrow> distinct (modifiers b) \<Longrightarrow>
   key_of a = key_of b \<longleftrightarrow> identity_key a = identity_key b"
  by (simp add: key_of_def identity_key_def sort_eq_iff_set_eq)

lemma identity_key_key_set: "identity_key it = key_set (key_of it)"
  by (simp add: identity_key_def key_set_def key_of_def)

lemma key_set_comp: "key_set \<circ> key_of = identity_key"
  by (rule ext) (simp add: identity_key_key_set)

lemma merged_items_keys:
  "merged_ok m \<Longrightarrow> map key_of (map snd m) = map fst m"
proof -
  assume "merged_ok m"
  then have "\<And>p. p \<in> set m \<Longrightarrow> key_of (snd p) = fst p"
    unfolding merged_ok_def by auto
  then show ?thesis by simp
qed

text \<open>
  Claim C10.  After \<open>merge_duplicates\<close> the total is the sum of unit price times quantity
  over the merged items.  For a cart whose items list no modifier twice, no two merged
  items share the identity key (sku, size, set of modifiers), the quantity of a merged item
  is the sum of the quantities of the pre-merge items with its key, and the merged items
  stand in the order in which their keys first occur.  Every cart that \<open>parse_order\<close> hands
  to \<open>merge_duplicates\<close> is such a cart: \<open>_extract_modifiers\<close> appends a modifier only when
  it is not yet recorded.
\<close>

theorem merge_duplicates_spec:
  "((\<forall>it \<in> set (items cart). distinct (modifiers it)) \<longrightarrow>
      distinct (map identity_key (items (merge_duplicates cart)))
    \<and> (\<forall>it \<in> set (items (merge_duplicates cart)).
           quantity it = sum_list (map quantity
              (filter (\<lambda>x. identity_key x = identity_key it) (items cart))))
    \<and> map identity_key (items (merge_duplicates cart))
          = first_occurrences (map identity_key (items cart)))
   \<and> total (merge_duplicates cart)
       = sum_list (map (\<lambda>it. price it * of_int (quantity it)) (items (merge_duplicates cart)))
   \<and> (find_all_items menu text = Inr found \<longrightarrow>
        (\<forall>it \<in> set (items (foldl add_item empty_cart found)). distinct (modifiers it)))"
proof -
  have tot: "total (merge_duplicates cart)
       = sum_list (map (\<lambda>it. price it * of_int (quantity it)) (items (merge_duplicates cart)))"
    by (simp add: merge_duplicates_def Let_def line_total_def cong: map_cong)
  have built: "find_all_items menu text = Inr found \<longrightarrow>
        (\<forall>it \<in> set (items (foldl add_item empty_cart found)). distinct (modifiers it))"
    using found_items_distinct by blast
  have keyed: "(\<forall>it \<in> set (items cart). distinct (modifiers it)) \<longrightarrow>
      distinct (map identity_key (items (merge_duplicates cart)))
    \<and> (\<forall>it \<in> set (items (merge_duplicates cart)).
           quantity it = sum_list (map quantity
              (filter (\<lambda>x. identity_key x = identity_key it) (items cart))))
    \<and> map identity_key (items (merge_duplicates cart))
          = first_occurrences (map identity_key (items cart))"
  proof
    assume dm: "\<forall>it \<in> set (items cart). distinct (modifiers it)"
    define xs where "xs = items cart"
    define m where "m = foldl merge_item [] xs"
    have ok: "merged_ok m"
      unfolding m_def by (rule merged_ok_foldl [OF merged_ok_Nil])
    have its: "items (merge_duplicates cart) = map snd m"
      by (simp add: merge_duplicates_def Let_def m_def xs_def)
    have keys: "map fst m = first_occurrences (map key_of xs)"
      using keys_foldl [of "[]" xs] by (simp add: m_def)
    have inj: "inj_on key_set (set (map key_of xs))"
    proof (rule inj_onI)
      fix a b assume "a \<in> set (map key_of xs)" "b \<in> set (map key_of xs)" and e: "key_set a = key_set b"
      then obtain x y where x: "x \<in> set xs" "a = key_of x" and y: "y \<in> set xs" "b = key_of y"
        by auto
      have "identity_key x = identity_key y" using e x y by (simp add: identity_key_key_set)
      moreover have "distinct (modifiers x)" "distinct (modifiers y)"
        using dm x y by (simp_all add: xs_def)
      ultimately show "a = b" using x y by (simp add: key_eq_iff_identity)
    qed
    have "map identity_key (map snd m) = map key_set (map key_of (map snd m))"
      by (simp add: key_set_comp [symmetric])
    also have "\<dots> = map key_set (first_occurrences (map key_of xs))"
      using merged_items_keys [OF ok] keys by simp
    also have "\<dots> = first_occurrences (map key_set (map key_of xs))"
      using inj by (rule first_occurrences_map)
    also have "\<dots> = first_occurrences (map identity_key xs)"
      by (simp add: key_set_comp)
    finally have order: "map identity_key (map snd m) = first_occurrences (map identity_key xs)" .
    have dist: "distinct (map identity_key (map snd m))"
      by (simp only: order distinct_first_occurrences)
    have dmm: "\<forall>(k, v) \<in> set m. distinct (modifiers v)"
      unfolding m_def using dm by (intro distinct_mods_foldl) (simp_all add: xs_def)
    have qty: "\<forall>it \<in> set (map snd m).
              quantity it = sum_list (map quantity (filter (\<lambda>x. identity_key x = identity_key it) xs))"
    proof
      fix it assume "it \<in> set (map snd m)"
      then obtain k where kv: "(k, it) \<in> set m" by auto
      then have k: "key_of it = k" using ok by (auto simp: merged_ok_def)
      have dit: "distinct (modifiers it)" using dmm kv by auto
      have "quantity it = sum_list (map quantity (filter (\<lambda>x. key_of x = k) xs))"
        using quantity_foldl [OF merged_ok_Nil, of k it xs] kv by (simp add: m_def)
      also have "filter (\<lambda>x. key_of x = k) xs = filter (\<lambda>x. identity_key x = identity_key it) xs"
      proof (rule filter_cong [OF refl])
        fix x assume "x \<in> set xs"
        then have "distinct (modifiers x)" using dm by (simp add: xs_def)
        then show "(key_of x = k) = (identity_key x = identity_key it)"
          using key_eq_iff_identity [of x it] dit k by simp
      qed
      finally show "quantity it = sum_list (map quantity (filter (\<lambda>x. identity_key x = identity_key it) xs))" .
    qed
    show "distinct (map identity_key (items (merge_duplicates cart)))
      \<and> (\<forall>it \<in> set (items (merge_duplicates cart)).
             quantity it = sum_list (map quantity
                (filter (\<lambda>x. identity_key x = identity_key it) (items cart))))
      \<and> map identity_key (items (merge_duplicates cart))
            = first_occurrences (map identity_key (items cart))"
      using dist qty order unfolding its xs_def by blast
  qed
  show ?thesis using tot built keyed by blast
qed

subsection \<open>Exact match\<close>

text \<open>
  Claim C9 does not hold of the code.  \<open>exact_match\<close> sorts both item lists to compare them
  regardless of order, but the sort key leaves out the quantity that the pairwise test
  compares, and the sort is stable: two lines with one key and different quantities are
  compared crosswise after a reversal, and the result is false.  A cart in which one sku
  stands once without a size and once with one cannot be sorted at all: the comparison of
  \<open>None\<close> with a string raises \<open>TypeError\<close>.
\<close>

theorem exact_match_reversed_fails:
  "exact_match \<lparr>items = [dup_item_a, dup_item_a\<lparr>quantity := 3\<rparr>], total = 836 / 100\<rparr>
               \<lparr>items = rev [dup_item_a, dup_item_a\<lparr>quantity := 3\<rparr>], total = 836 / 100\<rparr>
     = Inr False
   \<and> exact_match \<lparr>items = [dup_item_a, dup_item_a\<lparr>size := None\<rparr>], total = 418 / 100\<rparr>
               \<lparr>items = rev [dup_item_a, dup_item_a\<lparr>size := None\<rparr>], total = 418 / 100\<rparr>
     = Inl TypeError"
  by (simp add: exact_match_def sorted_items_def sort_raises_def incomparable_def
      match_key_def dup_item_a_def)

subsection \<open>F1 score\<close>

lemma finite_cart_entries [simp]: "finite (cart_entries c)"
  by (simp add: cart_entries_def)

lemma cart_entries_sku: "k \<in> cart_entries c \<Longrightarrow> fst k \<in> set (map sku (items c))"
  by (auto simp: cart_entries_def key_of_def)

lemma cart_entries_nonempty:
  "cart_entries c \<noteq> {} \<longleftrightarrow> list_ex (\<lambda>it. 0 < quantity it) (items c)"
proof -
  have "cart_entries c \<noteq> {} \<longleftrightarrow> (\<exists>it \<in> set (items c). replicate (nat (quantity it)) (key_of it) \<noteq> [])"
    by (simp add: cart_entries_def)
  also have "\<dots> \<longleftrightarrow> (\<exists>it \<in> set (items c). 0 < quantity it)"
    by (simp add: not_le)
  finally show ?thesis by (simp add: list_ex_iff)
qed

lemma f1_self: "calculate_f1 c c = 1"
proof (cases "cart_entries c = {}")
  case True
  then show ?thesis by (simp add: calculate_f1_def)
next
  case False
  then have "0 < card (cart_entries c)" by (simp add: card_gt_0_iff)
  then show ?thesis using False by (simp add: calculate_f1_def Let_def)
qed

lemma f1_disjoint:
  assumes d: "sku_disjoint a e" and ne: "cart_entries a \<noteq> {} \<or> cart_entries e \<noteq> {}"
  shows "calculate_f1 a e = 0"
proof -
  have i: "cart_entries a \<inter> cart_entries e = {}"
  proof (rule ccontr)
    assume "cart_entries a \<inter> cart_entries e \<noteq> {}"
    then obtain k where "k \<in> cart_entries a" "k \<in> cart_entries e" by auto
    then have "fst k \<in> set (map sku (items a)) \<inter> set (map sku (items e))"
      using cart_entries_sku [of k a] cart_entries_sku [of k e] by blast
    then show False using d unfolding sku_disjoint_def by blast
  qed
  show ?thesis
  proof (cases "cart_entries e = {}")
    case True
    then show ?thesis using ne by (simp add: calculate_f1_def)
  next
    case False
    then show ?thesis using i by (simp add: calculate_f1_def Let_def)
  qed
qed

text \<open>
  Claim C6.  The F1 score of a cart with at least one item against itself is 1; the F1 score
  of two carts with disjoint sku sets is 0, provided one of them has an item of positive
  quantity.
\<close>

theorem calculate_f1_self_and_disjoint:
  "(items c \<noteq> [] \<longrightarrow> calculate_f1 c c = 1)
   \<and> (sku_disjoint a e
        \<and> (list_ex (\<lambda>it. 0 < quantity it) (items a) \<or> list_ex (\<lambda>it. 0 < quantity it) (items e))
      \<longrightarrow> calculate_f1 a e = 0)"
  using f1_self [of c] f1_disjoint [of a e] by (simp add: cart_entries_nonempty)

text \<open>
  Two carts without entries have disjoint sku sets and score 1: the case of an empty
  expected set is decided before the general formula.
\<close>

theorem calculate_f1_disjoint_counterexample:
  "sku_disjoint empty_cart empty_cart \<and> calculate_f1 empty_cart empty_cart = 1"
  by (simp add: sku_disjoint_def empty_cart_def calculate_f1_def cart_entries_def)

theorem calculate_f1_self_and_disjoint_witness:
  "items match_example \<noteq> [] \<and> calculate_f1 match_example match_example = 1
   \<and> sku_disjoint f1_left f1_right \<and> list_ex (\<lambda>it. 0 < quantity it) (items f1_left)
   \<and> calculate_f1 f1_left f1_right = 0"
proof -
  have h1: "items match_example \<noteq> []" by (simp add: match_example_def)
  have h2: "sku_disjoint f1_left f1_right"
    by (simp add: sku_disjoint_def f1_left_def f1_right_def donut_item_def dup_item_a_def dup_item_b_def)
  have h3: "list_ex (\<lambda>it. 0 < quantity it) (items f1_left)"
    by (simp add: f1_left_def donut_item_def)
  show ?thesis
    using h1 h2 h3 calculate_f1_self_and_disjoint [of match_example f1_left f1_right] by simp
qed

subsection \<open>Parsing an order\<close>





lemma coffees_normalized:
  "normalize_text (handle_corrections ''two medium regular brewed coffees with cream'')
     = ''two medium regular brewed coffees with cream''"
  by (simp add: text_defs char_tables)

lemma coffees_no_mention:
  "found_mentions (build_alias_map SMALL_MENU) ''two medium regular brewed coffees with cream'' = []"
  unfolding small_alias_map
  by (simp add: found_mentions_def text_defs char_tables)

text \<open>
  Claim C3 does not hold of the code.  In the scenario text the item stands in the plural:
  after \<open>coffee\<close> comes the word character \<open>s\<close>, so none of the aliases of the small menu
  occurs as a whole word and the cart is empty.
\<close>

theorem parse_order_plural_coffees:
  "parse_order SMALL_MENU ''two medium regular brewed coffees with cream''
     = Inr \<lparr>items = [], total = 0\<rparr>"
  by (simp add: parse_order_def coffees_normalized find_all_items_def filtered_mentions_def
      coffees_no_mention empty_cart_def merge_duplicates_def)

lemma zero_coffee_normalized:
  "normalize_text (handle_corrections ''0 coffee'') = ''0 coffee''"
  by (simp add: text_defs char_tables)

lemma zero_coffee_found:
  "found_mentions (build_alias_map SMALL_MENU) ''0 coffee''
     = [\<lparr>m_start = 2, m_end = 8, m_alias = ''coffee'', m_item = small_COF001\<rparr>]"
  unfolding small_alias_map
  by (simp add: found_mentions_def text_defs char_tables)

lemma zero_coffee_filtered:
  "filtered_mentions (build_alias_map SMALL_MENU) ''0 coffee''
     = [\<lparr>m_start = 2, m_end = 8, m_alias = ''coffee'', m_item = small_COF001\<rparr>]"
  by (simp add: filtered_mentions_def zero_coffee_found scan_filtered.simps)

lemma zero_coffee_item:
  "make_cart_item SMALL_MENU ''0 coffee''
      \<lparr>m_start = 2, m_end = 8, m_alias = ''coffee'', m_item = small_COF001\<rparr>
     = Inr \<lparr>sku = ''COF001'', name = ''Regular Brewed Coffee'', quantity = 0,
            size = Some ''medium'', modifiers = [], price = 209 / 100\<rparr>"
  by (simp add: make_cart_item_def context_of_def extract_quantity_def number_words_def
      isdigit_def int_of_digits_def extract_size_def extract_modifiers_def
      small_modifier_map calculate_price_def SMALL_MENU_simps small_item_simps
      text_defs char_tables)

text \<open>
  Claim C4 does not hold of the code.  An all-digit word before the alias is read with
  \<open>int\<close>, whatever its value: the word \<open>0\<close> gives a cart item of quantity 0.
\<close>

theorem parse_order_zero_quantity:
  "parse_order SMALL_MENU ''0 coffee''
     = Inr \<lparr>items = [\<lparr>sku = ''COF001'', name = ''Regular Brewed Coffee'', quantity = 0,
                        size = Some ''medium'', modifiers = [], price = 209 / 100\<rparr>],
            total = 0\<rparr>"
  by (simp add: parse_order_def zero_coffee_normalized find_all_items_def zero_coffee_filtered
      zero_coffee_item empty_cart_def add_item_def merge_duplicates_def merge_item_def
      key_of_def line_total_def)

subsection \<open>Unit price and serialisation\<close>

lemma extract_size_cases:
  "extract_size size_map defaults context item = Some s \<Longrightarrow>
   s \<in> snd ` set size_map \<or> s \<in> snd ` set defaults \<or> s = ''medium''"
proof -
  assume a: "extract_size size_map defaults context item = Some s"
  show ?thesis
  proof (cases "List.find (\<lambda>(size_word, canonical_size). search_word size_word context) size_map")
    case None
    then have "s = (case map_of defaults (category item) of Some d \<Rightarrow> d | None \<Rightarrow> ''medium'')"
      using a by (simp add: extract_size_def split: if_splits)
    then show ?thesis
      by (cases "map_of defaults (category item)") (auto dest: map_of_SomeD intro: rev_image_eqI)
  next
    case (Some p)
    then obtain i where "i < length size_map" "size_map ! i = p"
      unfolding find_Some_iff by blast
    then have "p \<in> set size_map" using nth_mem by blast
    moreover have "s = snd p" using a Some by (cases p) (simp add: extract_size_def split: if_splits)
    ultimately show ?thesis by auto
  qed
qed

lemma get_menu_cases: "get_menu n = SMALL_MENU \<or> get_menu n = LARGE_MENU"
  by (simp add: get_menu_def split: option.splits if_splits)

lemma menu_sizes_nonempty:
  "extract_size (size_synonyms (get_menu n)) (default_sizes (get_menu n)) context item \<noteq> Some []"
proof
  assume "extract_size (size_synonyms (get_menu n)) (default_sizes (get_menu n)) context item = Some []"
  then have "[] \<in> snd ` set (size_synonyms (get_menu n)) \<or> [] \<in> snd ` set (default_sizes (get_menu n))"
    using extract_size_cases by fastforce
  then show False
    using get_menu_cases [of n] by (auto simp: SMALL_MENU_simps LARGE_MENU_simps)
qed

lemma make_cart_item_price:
  "make_cart_item menu text mention = Inr ci \<Longrightarrow>
   price ci = calculate_price (m_item mention) (size ci) (modifiers ci)
   \<and> size ci = extract_size (size_synonyms menu) (default_sizes menu) (context_of text mention)
                 (m_item mention)"
  by (auto simp: make_cart_item_def Let_def split: sum.splits)

lemma round2_grid: "\<exists>k::int. round2 x = of_int k / 100"
  unfolding round2_def Let_def by blast

lemma round2_near: "\<bar>round2 x - x\<bar> \<le> 1 / 200"
proof -
  define y where "y = x * 100"
  define f where "f = \<lfloor>y\<rfloor>"
  define r where "r = y - of_int f"
  have r0: "0 \<le> r" and r1: "r < 1" unfolding r_def f_def by linarith+
  define k where "k = (if r < 1 / 2 then f else if 1 / 2 < r then f + 1
                 else if even f then f else f + 1)"
  have "\<bar>of_int k - y\<bar> \<le> 1 / 2"
    unfolding k_def using r0 r1 by (auto simp: r_def)
  then have b: "\<bar>(of_int k - y) / 100\<bar> \<le> 1 / 200" by simp
  have rk: "round2 x = of_int k / 100"
    by (simp add: round2_def Let_def k_def r_def f_def y_def)
  have "x = y / 100" by (simp add: y_def)
  then have "round2 x - x = (of_int k - y) / 100"
    unfolding rk by (simp add: diff_divide_distrib)
  then show ?thesis using b by (simp only:)
qed

text \<open>
  Claim C7.  The unit price is the base price when no size is resolved, the base price plus
  the delta of the size when the size is resolved and stands in the size-variation table of
  the item, and the base price when the size is not in the table; a size counts as resolved
  when it is a string that is not empty (the truth test \<open>if size\<close>).  Every cart item built
  on a menu of the repository has this price for its size, since those menus resolve no
  empty size.  Nothing is rounded on the way: the serialised cart carries the prices as they
  are, and only its total is rounded, to the nearest multiple of 1/100.
\<close>

theorem unit_price_exact:
  "calculate_price item None mods = base_price item
   \<and> (s \<noteq> [] \<and> map_of (size_variations item) s = Some delta \<longrightarrow>
        calculate_price item (Some s) mods = base_price item + delta)
   \<and> (map_of (size_variations item) s = None \<longrightarrow>
        calculate_price item (Some s) mods = base_price item)
   \<and> (make_cart_item (get_menu n) text mention = Inr ci \<longrightarrow>
        price ci = (case size ci of
                      None \<Rightarrow> base_price (m_item mention)
                    | Some sz \<Rightarrow>
                        (case map_of (size_variations (m_item mention)) sz of
                           Some d \<Rightarrow> base_price (m_item mention) + d
                         | None \<Rightarrow> base_price (m_item mention))))
   \<and> map price (dict_items (to_dict cart)) = map price (items cart)
   \<and> dict_total (to_dict cart) = round2 (total cart)
   \<and> (\<exists>k::int. round2 x = of_int k / 100) \<and> \<bar>round2 x - x\<bar> \<le> 1 / 200"
proof -
  have built: "make_cart_item (get_menu n) text mention = Inr ci \<longrightarrow>
        price ci = (case size ci of
                      None \<Rightarrow> base_price (m_item mention)
                    | Some sz \<Rightarrow>
                        (case map_of (size_variations (m_item mention)) sz of
                           Some d \<Rightarrow> base_price (m_item mention) + d
                         | None \<Rightarrow> base_price (m_item mention)))"
  proof
    assume a: "make_cart_item (get_menu n) text mention = Inr ci"
    from make_cart_item_price [OF a] menu_sizes_nonempty [of n "context_of text mention" "m_item mention"]
    have p: "price ci = calculate_price (m_item mention) (size ci) (modifiers ci)"
      and ne: "size ci \<noteq> Some []" by simp_all
    show "price ci = (case size ci of
                      None \<Rightarrow> base_price (m_item mention)
                    | Some sz \<Rightarrow>
                        (case map_of (size_variations (m_item mention)) sz of
                           Some d \<Rightarrow> base_price (m_item mention) + d
                         | None \<Rightarrow> base_price (m_item mention)))"
      using ne unfolding p calculate_price_def by (cases "size ci") auto
  qed
  have "map price (dict_items (to_dict cart)) = map price (items cart)"
    by (simp add: to_dict_def comp_def)
  then show ?thesis
    using built round2_grid [of x] round2_near [of x]
    by (simp add: calculate_price_def to_dict_def)
qed

theorem unit_price_exact_witness:
  "map_of (size_variations small_COF001) ''medium'' = Some (30 / 100)
   \<and> calculate_price small_COF001 (Some ''medium'') [] = 209 / 100
   \<and> map_of (size_variations small_COF001) ''huge'' = None
   \<and> calculate_price small_COF001 (Some ''huge'') [] = 179 / 100
   \<and> make_cart_item (get_menu ''small'') ''0 coffee''
        \<lparr>m_start = 2, m_end = 8, m_alias = ''coffee'', m_item = small_COF001\<rparr>
       = Inr \<lparr>sku = ''COF001'', name = ''Regular Brewed Coffee'', quantity = 0,
              size = Some ''medium'', modifiers = [], price = 209 / 100\<rparr>
   \<and> dict_total (to_dict \<lparr>items = [], total = 4186 / 1000\<rparr>) = 419 / 100"
proof -
  have h1: "''medium'' \<noteq> [] \<and> map_of (size_variations small_COF001) ''medium'' = Some (30 / 100)"
    by (simp add: small_item_simps)
  have h2: "map_of (size_variations small_COF001) ''huge'' = None"
    by (simp add: small_item_simps)
  have h3: "make_cart_item (get_menu ''small'') ''0 coffee''
        \<lparr>m_start = 2, m_end = 8, m_alias = ''coffee'', m_item = small_COF001\<rparr>
       = Inr \<lparr>sku = ''COF001'', name = ''Regular Brewed Coffee'', quantity = 0,
              size = Some ''medium'', modifiers = [], price = 209 / 100\<rparr>"
    by (simp only: get_menu_small zero_coffee_item)
  have r: "round2 (4186 / 1000) = 419 / 100"
    by code_simp
  show ?thesis
    using h1 h2 h3 r
      unit_price_exact [of small_COF001 "[]" "''medium''" "30 / 100" "''small''" "''0 coffee''"
        "\<lparr>m_start = 2, m_end = 8, m_alias = ''coffee'', m_item = small_COF001\<rparr>"
        "\<lparr>sku = ''COF001'', name = ''Regular Brewed Coffee'', quantity = 0,
              size = Some ''medium'', modifiers = [], price = 209 / 100\<rparr>"
        "\<lparr>items = [], total = 4186 / 1000\<rparr>" "4186 / 1000"]
      unit_price_exact [of small_COF001 "[]" "''huge''"]
    by (simp add: small_item_simps)
qed

subsection \<open>The evaluation harness\<close>

lemma superscript_normalized:
  "normalize_text (handle_corrections (CHR 0xB2 # '' coffee'')) = CHR 0xB2 # '' coffee''"
  by (simp add: text_defs char_tables)

lemma superscript_filtered:
  "filtered_mentions (build_alias_map SMALL_MENU) (CHR 0xB2 # '' coffee'')
     = [\<lparr>m_start = 2, m_end = 8, m_alias = ''coffee'', m_item = small_COF001\<rparr>]"
  unfolding small_alias_map
  by (simp add: filtered_mentions_def found_mentions_def text_defs char_tables
      scan_filtered.simps)

lemma superscript_item:
  "make_cart_item SMALL_MENU (CHR 0xB2 # '' coffee'')
      \<lparr>m_start = 2, m_end = 8, m_alias = ''coffee'', m_item = small_COF001\<rparr>
     = Inl ValueError"
  by (simp add: make_cart_item_def context_of_def extract_quantity_def number_words_def
      isdigit_def int_of_digits_def text_defs char_tables)

lemma parse_order_superscript:
  "parse_order SMALL_MENU (CHR 0xB2 # '' coffee'') = Inl ValueError"
  by (simp add: parse_order_def superscript_normalized find_all_items_def superscript_filtered
      superscript_item)

text \<open>
  Claim C2 does not hold of the code.  The handler of the \<open>try\<close> statement evaluates
  \<open>Cart()\<close>, but \<open>evaluate.py\<close> imports only \<open>CartEvaluator\<close> and \<open>CartNormalizer\<close> from the
  engine: when the parsing of a scenario raises, the handler raises \<open>NameError\<close> and the run
  ends there, before the scenarios that follow.
\<close>

theorem run_evaluation_aborts:
  "run_evaluation [failing_scenario, passing_scenario] = Inl (NameError ''Cart'')"
  by (simp add: run_evaluation_def parse_scenario_def failing_scenario_def get_menu_small
      parse_order_superscript lookup_name_def evaluate_names_def)

subsection \<open>The mention finder\<close>

lemma overlaps_sym: "overlaps a b = overlaps b a"
  by (auto simp: overlaps_def)

lemma overlaps_common:
  "m_start p \<le> m_start c \<Longrightarrow> m_start q \<le> m_start c \<Longrightarrow> overlaps c p \<Longrightarrow> overlaps c q
   \<Longrightarrow> overlaps p q"
  by (auto simp: overlaps_def)

lemma scan_no_overlap:
  "\<forall>p \<in> set fl. \<not> overlaps c p \<Longrightarrow> scan_filtered c fl i = (False, fl)"
proof (induction "length fl - i" arbitrary: i)
  case 0
  then show ?case by (subst scan_filtered.simps) simp
next
  case (Suc n)
  then have i: "i < length fl" by simp
  then have "\<not> overlaps c (fl ! i)" using Suc.prems by simp
  moreover have "scan_filtered c fl (Suc i) = (False, fl)"
    using Suc.hyps(1) [of "Suc i"] Suc.hyps(2) Suc.prems by simp
  ultimately show ?case using i by (subst scan_filtered.simps) (simp add: Let_def)
qed

lemma scan_one_overlap:
  "filter (overlaps c) pre = [] \<Longrightarrow> filter (overlaps c) rest = [p] \<Longrightarrow>
   scan_filtered c (pre @ rest) (length pre)
     = (if longer c p then (False, pre @ remove1 p rest) else (True, pre @ rest))"
proof (induction rest arbitrary: pre)
  case Nil
  then show ?case by simp
next
  case (Cons x rest)
  have at: "(pre @ x # rest) ! length pre = x" by simp
  have lt: "length pre < length (pre @ x # rest)" by simp
  show ?case
  proof (cases "overlaps c x")
    case True
    then have xp: "x = p" and r: "filter (overlaps c) rest = []" using Cons.prems(2) by simp_all
    have "x \<notin> set pre" using Cons.prems(1) True by (auto simp: filter_empty_conv)
    then have rm: "remove1 x (pre @ x # rest) = pre @ rest" by (simp add: remove1_append)
    have no: "\<forall>q \<in> set (pre @ rest). \<not> overlaps c q"
      using Cons.prems(1) r by (auto simp: filter_empty_conv)
    show ?thesis
    proof (cases "longer c p")
      case l: True
      have "scan_filtered c (pre @ x # rest) (length pre) = scan_filtered c (pre @ rest) (Suc (length pre))"
        using True l xp rm at lt
        by (subst scan_filtered.simps) (simp add: Let_def longer_def del: nth_append_length)
      then show ?thesis using scan_no_overlap [OF no] l xp by simp
    next
      case l: False
      show ?thesis
        using True l xp at lt
        by (subst scan_filtered.simps) (simp add: Let_def longer_def del: nth_append_length)
    qed
  next
    case False
    then have r: "filter (overlaps c) rest = [p]" using Cons.prems(2) by simp
    have "p \<in> set (filter (overlaps c) rest)" by (simp add: r)
    then have "overlaps c p" by simp
    then have xp: "x \<noteq> p" using False by auto
    have pre': "filter (overlaps c) (pre @ [x]) = []" using Cons.prems(1) False by simp
    have "scan_filtered c (pre @ x # rest) (length pre) = scan_filtered c (pre @ x # rest) (Suc (length pre))"
      using False at lt
      by (subst scan_filtered.simps) (simp add: Let_def del: nth_append_length)
    then show ?thesis using Cons.IH [OF pre' r] xp by simp
  qed
qed

lemma scan_one_overlap0:
  "filter (overlaps c) fl = [p] \<Longrightarrow>
   scan_filtered c fl 0 = (if longer c p then (False, remove1 p fl) else (True, fl))"
  using scan_one_overlap [of c "[]" fl p] by simp

lemma resolve_overlaps_Cons: "resolve_overlaps (c # cs) fl = resolve_overlaps cs (accept c fl)"
  by (simp add: accept_def split: prod.splits)

declare resolve_overlaps.simps(2) [simp del]

lemma resolve_overlaps_append:
  "resolve_overlaps (xs @ ys) fl = resolve_overlaps ys (resolve_overlaps xs fl)"
  by (induction xs arbitrary: fl) (simp_all only: resolve_overlaps_Cons append.simps resolve_overlaps.simps(1))

lemma filter_at_most_one:
  "sorted_wrt R xs \<Longrightarrow> (\<And>x y. x \<in> set xs \<Longrightarrow> y \<in> set xs \<Longrightarrow> P x \<Longrightarrow> P y \<Longrightarrow> \<not> R x y)
   \<Longrightarrow> filter P xs = [] \<or> (\<exists>p. filter P xs = [p])"
proof (induction xs)
  case Nil
  then show ?case by simp
next
  case (Cons x xs)
  show ?case
  proof (cases "P x")
    case True
    have "\<forall>y \<in> set xs. \<not> P y"
    proof
      fix y assume y: "y \<in> set xs"
      then have "R x y" using Cons.prems(1) by simp
      then show "\<not> P y" using Cons.prems(2) [of x y] True y by auto
    qed
    then have "filter P xs = []" by (simp add: filter_empty_conv)
    then show ?thesis using True by simp
  next
    case False
    have "filter P xs = [] \<or> (\<exists>p. filter P xs = [p])"
      using Cons.prems by (intro Cons.IH) auto
    then show ?thesis using False by simp
  qed
qed

lemma overlap_at_most_one:
  assumes "non_overlapping acc" and "\<forall>p \<in> set acc. m_start p \<le> m_start c"
  shows "filter (overlaps c) acc = [] \<or> (\<exists>p. filter (overlaps c) acc = [p])"
  using assms(1) unfolding non_overlapping_def
proof (rule filter_at_most_one)
  fix x y assume "x \<in> set acc" "y \<in> set acc" "overlaps c x" "overlaps c y"
  then show "\<not> \<not> overlaps x y" using assms(2) overlaps_common [of x c y] by simp
qed

lemma accept_none: "filter (overlaps c) acc = [] \<Longrightarrow> accept c acc = acc @ [c]"
  by (simp add: accept_def scan_no_overlap filter_empty_conv)

lemma accept_one:
  "filter (overlaps c) acc = [p] \<Longrightarrow>
   accept c acc = (if longer c p then remove1 p acc @ [c] else acc)"
  by (simp add: accept_def scan_one_overlap0)

lemma sorted_wrt_remove1: "sorted_wrt R xs \<Longrightarrow> sorted_wrt R (remove1 x xs)"
proof (induction xs)
  case Nil
  then show ?case by simp
next
  case (Cons y ys)
  then show ?case using notin_set_remove1 [of _ ys x] by (cases "x = y") auto
qed

lemma set_scan_filtered: "set (snd (scan_filtered c fl i)) \<subseteq> set fl"
proof (induction c fl i rule: scan_filtered.induct)
  case (1 c filtered i)
  show ?case
  proof (cases "i < length filtered")
    case False
    then show ?thesis by (subst scan_filtered.simps) simp
  next
    case lt: True
    show ?thesis
    proof (cases "overlaps c (filtered ! i)")
      case False
      then show ?thesis using lt "1.IH"(2) by (subst scan_filtered.simps) (simp add: Let_def)
    next
      case ov: True
      show ?thesis
      proof (cases "length (m_alias c) > length (m_alias (filtered ! i))")
        case False
        then show ?thesis using lt ov by (subst scan_filtered.simps) (simp add: Let_def)
      next
        case True
        have "set (snd (scan_filtered c (remove1 (filtered ! i) filtered) (Suc i)))
                \<subseteq> set (remove1 (filtered ! i) filtered)"
          using "1.IH"(1) lt ov True by simp
        also have "\<dots> \<subseteq> set filtered" by (rule set_remove1_subset)
        finally show ?thesis using lt ov True
          by (subst scan_filtered.simps) (simp add: Let_def)
      qed
    qed
  qed
qed

lemma set_accept: "set (accept c acc) \<subseteq> insert c (set acc)"
proof -
  obtain ov fl where s: "scan_filtered c acc 0 = (ov, fl)" by (cases "scan_filtered c acc 0")
  then have "set fl \<subseteq> set acc" using set_scan_filtered [of c acc 0] by simp
  then show ?thesis using s by (auto simp: accept_def)
qed

lemma accept_non_overlapping:
  assumes no: "non_overlapping acc" and st: "\<forall>p \<in> set acc. m_start p \<le> m_start c"
  shows "non_overlapping (accept c acc)"
proof -
  consider "filter (overlaps c) acc = []" | p where "filter (overlaps c) acc = [p]"
    using overlap_at_most_one [OF no st] by blast
  then show ?thesis
  proof cases
    case 1
    then have "\<forall>x \<in> set acc. \<not> overlaps x c"
      by (auto simp: filter_empty_conv overlaps_sym [of _ c])
    then show ?thesis using no 1 by (simp add: accept_none non_overlapping_def sorted_wrt_append)
  next
    case 2
    have "filter (overlaps c) (remove1 p acc) = remove1 p (filter (overlaps c) acc)"
      by (rule filter_remove1)
    then have "filter (overlaps c) (remove1 p acc) = []" using 2 by simp
    then have "\<forall>x \<in> set (remove1 p acc). \<not> overlaps x c"
      by (auto simp: filter_empty_conv overlaps_sym [of _ c])
    moreover have "sorted_wrt (\<lambda>a b. \<not> overlaps a b) (remove1 p acc)"
      using no unfolding non_overlapping_def by (rule sorted_wrt_remove1)
    ultimately show ?thesis
      using no 2 by (simp add: accept_one non_overlapping_def sorted_wrt_append)
  qed
qed

lemma set_resolve_overlaps: "set (resolve_overlaps cs acc) \<subseteq> set cs \<union> set acc"
proof (induction cs arbitrary: acc)
  case Nil
  then show ?case by simp
next
  case (Cons c cs)
  show ?case using Cons.IH [of "accept c acc"] set_accept [of c acc]
    by (auto simp: resolve_overlaps_Cons)
qed

lemma resolve_non_overlapping:
  "sorted (map m_start cs) \<Longrightarrow> non_overlapping acc \<Longrightarrow>
   \<forall>p \<in> set acc. \<forall>c \<in> set cs. m_start p \<le> m_start c \<Longrightarrow>
   non_overlapping (resolve_overlaps cs acc)"
proof (induction cs arbitrary: acc)
  case Nil
  then show ?case by simp
next
  case (Cons c cs)
  have st: "\<forall>p \<in> set acc. m_start p \<le> m_start c" using Cons.prems(3) by simp
  have no: "non_overlapping (accept c acc)"
    using Cons.prems(2) st by (rule accept_non_overlapping)
  have "\<forall>p \<in> set (accept c acc). \<forall>d \<in> set cs. m_start p \<le> m_start d"
  proof (intro ballI)
    fix p d assume p: "p \<in> set (accept c acc)" and d: "d \<in> set cs"
    from p set_accept [of c acc] have "p = c \<or> p \<in> set acc" by auto
    then show "m_start p \<le> m_start d" using Cons.prems(1,3) d by auto
  qed
  moreover have "sorted (map m_start cs)" using Cons.prems(1) by simp
  ultimately show ?case using Cons.IH [of "accept c acc"] no
    by (simp add: resolve_overlaps_Cons)
qed

lemma resolve_prefix_state:
  assumes "sorted (map m_start (pre @ c # post))"
  shows "non_overlapping (resolve_overlaps pre [])"
    and "\<forall>p \<in> set (resolve_overlaps pre []). m_start p \<le> m_start c"
proof -
  have s: "sorted (map m_start pre)" using assms by (simp add: sorted_append)
  show "non_overlapping (resolve_overlaps pre [])"
    using s by (intro resolve_non_overlapping) (simp_all add: non_overlapping_def)
  have "set (resolve_overlaps pre []) \<subseteq> set pre" using set_resolve_overlaps [of pre "[]"] by simp
  moreover have "\<forall>p \<in> set pre. m_start p \<le> m_start c"
    using assms by (auto simp: sorted_append)
  ultimately show "\<forall>p \<in> set (resolve_overlaps pre []). m_start p \<le> m_start c" by blast
qed

lemma member_single: "x \<in> set xs \<Longrightarrow> xs = [] \<or> (\<exists>q. xs = [q]) \<Longrightarrow> xs = [x]"
  by auto

lemma resolve_snoc: "resolve_overlaps (pre @ [c]) [] = accept c (resolve_overlaps pre [])"
  by (simp add: resolve_overlaps_append resolve_overlaps_Cons)


lemma find_mentions_rules:
  "sorted (map m_start (sort_key m_start (found_mentions alias_map text)))
   \<and> filtered_mentions alias_map text
       = resolve_overlaps (sort_key m_start (found_mentions alias_map text)) []
   \<and> (\<forall>i j. i < j \<and> j < length (filtered_mentions alias_map text) \<longrightarrow>
          \<not> overlaps (filtered_mentions alias_map text ! i) (filtered_mentions alias_map text ! j))
   \<and> (\<forall>pre c post. sort_key m_start (found_mentions alias_map text) = pre @ c # post \<longrightarrow>
          ((\<forall>p \<in> set (resolve_overlaps pre []). \<not> overlaps c p) \<longrightarrow>
              resolve_overlaps (pre @ [c]) [] = resolve_overlaps pre [] @ [c])
        \<and> (\<forall>p \<in> set (resolve_overlaps pre []). overlaps c p \<longrightarrow>
              resolve_overlaps (pre @ [c]) []
                = (if length (m_alias p) < length (m_alias c)
                   then remove1 p (resolve_overlaps pre []) @ [c]
                   else resolve_overlaps pre [])))"
proof -
  define cands where "cands = sort_key m_start (found_mentions alias_map text)"
  have sorted: "sorted (map m_start cands)" by (simp add: cands_def)
  have "non_overlapping (resolve_overlaps cands [])"
    using sorted by (intro resolve_non_overlapping) (simp_all add: non_overlapping_def)
  then have free: "\<forall>i j. i < j \<and> j < length (resolve_overlaps cands []) \<longrightarrow>
          \<not> overlaps (resolve_overlaps cands [] ! i) (resolve_overlaps cands [] ! j)"
    by (auto simp: non_overlapping_def sorted_wrt_iff_nth_less)
  have step: "\<forall>pre c post. cands = pre @ c # post \<longrightarrow>
          ((\<forall>p \<in> set (resolve_overlaps pre []). \<not> overlaps c p) \<longrightarrow>
              resolve_overlaps (pre @ [c]) [] = resolve_overlaps pre [] @ [c])
        \<and> (\<forall>p \<in> set (resolve_overlaps pre []). overlaps c p \<longrightarrow>
              resolve_overlaps (pre @ [c]) []
                = (if length (m_alias p) < length (m_alias c)
                   then remove1 p (resolve_overlaps pre []) @ [c]
                   else resolve_overlaps pre []))"
  proof (intro allI impI)
    fix pre c post assume split: "cands = pre @ c # post"
    define acc where "acc = resolve_overlaps pre []"
    have so: "sorted (map m_start (pre @ c # post))" using sorted split by simp
    have no: "non_overlapping acc" and st: "\<forall>p \<in> set acc. m_start p \<le> m_start c"
      unfolding acc_def using resolve_prefix_state [OF so] by simp_all
    have one: "filter (overlaps c) acc = [] \<or> (\<exists>p. filter (overlaps c) acc = [p])"
      using no st by (rule overlap_at_most_one)
    have a: "(\<forall>p \<in> set acc. \<not> overlaps c p) \<longrightarrow> accept c acc = acc @ [c]"
      by (simp add: accept_none filter_empty_conv)
    have b: "\<forall>p \<in> set acc. overlaps c p \<longrightarrow>
              accept c acc = (if length (m_alias p) < length (m_alias c)
                              then remove1 p acc @ [c] else acc)"
    proof (intro ballI impI)
      fix p assume p: "p \<in> set acc" and ov: "overlaps c p"
      then have "p \<in> set (filter (overlaps c) acc)" by simp
      then have "filter (overlaps c) acc = [p]" using one by (rule member_single)
      then show "accept c acc = (if length (m_alias p) < length (m_alias c)
                              then remove1 p acc @ [c] else acc)"
        by (simp add: accept_one longer_def)
    qed
    show "((\<forall>p \<in> set (resolve_overlaps pre []). \<not> overlaps c p) \<longrightarrow>
              resolve_overlaps (pre @ [c]) [] = resolve_overlaps pre [] @ [c])
        \<and> (\<forall>p \<in> set (resolve_overlaps pre []). overlaps c p \<longrightarrow>
              resolve_overlaps (pre @ [c]) []
                = (if length (m_alias p) < length (m_alias c)
                   then remove1 p (resolve_overlaps pre []) @ [c]
                   else resolve_overlaps pre []))"
      using a b unfolding resolve_snoc acc_def by blast
  qed
  show ?thesis
    using sorted free step unfolding filtered_mentions_def cands_def by blast
qed

lemma accept_keeps:
  assumes no: "non_overlapping acc" and st: "\<forall>p \<in> set acc. m_start p \<le> m_start c"
    and P: "P \<in> set acc"
    and H: "overlaps c P \<longrightarrow> \<not> longer c P"
  shows "P \<in> set (accept c acc)"
proof -
  consider "filter (overlaps c) acc = []" | q where "filter (overlaps c) acc = [q]"
    using overlap_at_most_one [OF no st] by blast
  then show ?thesis
  proof cases
    case 1
    then show ?thesis using P by (simp add: accept_none)
  next
    case 2
    then have "q \<in> set (filter (overlaps c) acc)" by simp
    then have ov: "overlaps c q" by simp
    show ?thesis
    proof (cases "longer c q")
      case False
      then show ?thesis using 2 P by (simp add: accept_one)
    next
      case True
      then have "q \<noteq> P" using H ov by auto
      then have "P \<in> set (remove1 q acc)" using P by simp
      then show ?thesis using 2 True by (simp add: accept_one)
    qed
  qed
qed

lemma accept_takes:
  assumes no: "non_overlapping acc" and st: "\<forall>p \<in> set acc. m_start p \<le> m_start P"
    and H: "\<forall>q \<in> set acc. overlaps P q \<longrightarrow> q = P \<or> longer P q"
  shows "P \<in> set (accept P acc)"
proof -
  consider "filter (overlaps P) acc = []" | q where "filter (overlaps P) acc = [q]"
    using overlap_at_most_one [OF no st] by blast
  then show ?thesis
  proof cases
    case 1
    then show ?thesis by (simp add: accept_none)
  next
    case 2
    then have "q \<in> set (filter (overlaps P) acc)" by simp
    then have q: "q \<in> set acc" and ov: "overlaps P q" by simp_all
    then have "q = P \<or> longer P q" using H by blast
    then show ?thesis using 2 q by (auto simp: accept_one)
  qed
qed

lemma longest_stays:
  assumes so: "sorted (map m_start cands)"
    and H: "\<forall>Q \<in> set cands. overlaps Q P \<longrightarrow> Q = P \<or> longer P Q"
  shows "cands = xs @ rest \<Longrightarrow> P \<in> set xs \<Longrightarrow> P \<in> set (resolve_overlaps xs [])"
proof (induction xs arbitrary: rest rule: rev_induct)
  case Nil
  then show ?case by simp
next
  case (snoc c xs)
  have split: "cands = xs @ c # rest" using snoc.prems(1) by simp
  have so': "sorted (map m_start (xs @ c # rest))" using so split by simp
  define acc where "acc = resolve_overlaps xs []"
  have no: "non_overlapping acc" and st: "\<forall>p \<in> set acc. m_start p \<le> m_start c"
    unfolding acc_def using resolve_prefix_state [OF so'] by simp_all
  have sub: "set acc \<subseteq> set cands"
    unfolding acc_def using set_resolve_overlaps [of xs "[]"] split by auto
  have c: "c \<in> set cands" using split by simp
  show ?case
  proof (cases "P \<in> set xs")
    case True
    then have P: "P \<in> set acc" unfolding acc_def using snoc.IH [OF split] by simp
    have "overlaps c P \<longrightarrow> \<not> longer c P"
    proof
      assume "overlaps c P"
      then have "c = P \<or> longer P c" using H c by blast
      then show "\<not> longer c P" by (auto simp: longer_def)
    qed
    then have "P \<in> set (accept c acc)" using no st P by (intro accept_keeps)
    then show ?thesis by (simp add: resolve_snoc acc_def)
  next
    case False
    then have cP: "c = P" using snoc.prems(2) by simp
    have "\<forall>q \<in> set acc. overlaps P q \<longrightarrow> q = P \<or> longer P q"
      using H sub overlaps_sym [of P] by blast
    then have "P \<in> set (accept P acc)" using no st unfolding cP by (intro accept_takes)
    then show ?thesis by (simp add: resolve_snoc acc_def cP)
  qed
qed

lemma non_overlapping_distinct_values:
  "non_overlapping ms \<Longrightarrow> a \<in> set ms \<Longrightarrow> b \<in> set ms \<Longrightarrow> a \<noteq> b \<Longrightarrow> \<not> overlaps a b"
proof (induction ms)
  case Nil
  then show ?case by simp
next
  case (Cons m ms)
  then show ?case
    using overlaps_sym [of a b] by (auto simp: non_overlapping_def)
qed

lemma longest_wins:
  assumes so: "sorted (map m_start cands)" and P: "P \<in> set cands"
    and H: "\<forall>Q \<in> set cands. overlaps Q P \<longrightarrow> Q = P \<or> longer P Q"
  shows "P \<in> set (resolve_overlaps cands [])"
    and "\<forall>Q \<in> set (resolve_overlaps cands []). Q \<noteq> P \<longrightarrow> \<not> overlaps Q P"
proof -
  show in_result: "P \<in> set (resolve_overlaps cands [])"
    using longest_stays [OF so H, of cands "[]"] P by simp
  have "non_overlapping (resolve_overlaps cands [])"
    using so by (intro resolve_non_overlapping) (simp_all add: non_overlapping_def)
  then show "\<forall>Q \<in> set (resolve_overlaps cands []). Q \<noteq> P \<longrightarrow> \<not> overlaps Q P"
    using in_result non_overlapping_distinct_values by blast
qed

lemmas eval_alist = foldl.simps AList.update.simps fst_conv snd_conv if_True if_False
  list.inject list.distinct char.inject simp_thms list.map lower_def lower_char_table

lemma large_alias_map:
  "build_alias_map LARGE_MENU =
    [(''pumpkin spice iced doughnut'', large_DON001), (''pumpkin spice donut'', large_DON001),
     (''pumpkin donut'', large_DON001), (''ps donut'', large_DON001),
     (''pumpkin iced'', large_DON001), (''pumpkin spice'', large_DON001),
     (''pumpkin glazed'', large_DON001), (''ps iced'', large_DON001),
     (''pumpkin spice cake doughnut'', large_DON002), (''pumpkin cake donut'', large_DON002),
     (''pumpkin cake'', large_DON002), (''ps cake'', large_DON002),
     (''pumpkin spice cake'', large_DON002), (''cake donut pumpkin'', large_DON002),
     (''old fashioned doughnut'', large_DON003), (''old fashioned'', large_DON003),
     (''old fashioned donut'', large_DON003), (''old fashion'', large_DON003),
     (''plain cake donut'', large_DON003), (''chocolate iced doughnut'', large_DON004),
     (''chocolate donut'', large_DON004), (''choc donut'', large_DON004),
     (''chocolate glazed'', large_DON004), (''chocolate iced'', large_DON004),
     (''choc iced'', large_DON004), (''chocolate'', large_DON004), (''choc'', large_DON004),
     (''raspberry filled doughnut'', large_DON005), (''raspberry donut'', large_DON005),
     (''raspberry filled'', large_DON005), (''rasp filled'', large_DON005),
     (''raspberry jelly'', large_DON005), (''raspberry jam'', large_DON005),
     (''rasp'', large_DON005), (''raspberry'', large_DON005),
     (''blueberry cake doughnut'', large_DON006), (''blueberry donut'', large_DON006),
     (''blueberry cake'', large_DON006), (''blueberry'', large_DON006),
     (''blueberry cake donut'', large_DON006),
     (''strawberry iced doughnut with sprinkles'', large_DON007),
     (''strawberry donut'', large_DON007), (''strawberry iced'', large_DON007),
     (''strawberry glazed'', large_DON007), (''strawberry'', large_DON007),
     (''strawberry with sprinkles'', large_DON007), (''strawberry sprinkled'', large_DON007),
     (''lemon filled doughnut'', large_DON008), (''lemon donut'', large_DON008),
     (''lemon filled'', large_DON008), (''lemon jelly'', large_DON008),
     (''lemon jam'', large_DON008), (''lemon'', large_DON008),
     (''doughnut holes'', large_DON009), (''donut holes'', large_DON009),
     (''donut holes dozen'', large_DON009), (''holes'', large_DON009),
     (''munchkins'', large_DON009), (''donut munchkins'', large_DON009),
     (''pumpkin spice coffee'', large_COF001), (''ps coffee'', large_COF001),
     (''pumpkin coffee'', large_COF001), (''pumpkin brew'', large_COF001),
     (''pumpkin spice latte'', large_COF002), (''psl'', large_COF002),
     (''pumpkin latte'', large_COF002), (''ps latte'', large_COF002),
     (''regular brewed coffee'', large_COF003), (''coffee'', large_COF003),
     (''regular coffee'', large_COF003), (''brewed coffee'', large_COF003),
     (''black coffee'', large_COF003), (''regular'', large_COF003),
     (''house coffee'', large_COF003), (''drip coffee'', large_COF003),
     (''decaf brewed coffee'', large_COF004), (''decaf'', large_COF004),
     (''decaf coffee'', large_COF004), (''decaffeinated'', large_COF004),
     (''decaf brewed'', large_COF004), (''latte'', large_COF005),
     (''cafe latte'', large_COF005), (''coffee latte'', large_COF005),
     (''cappuccino'', large_COF006), (''capp'', large_COF006), (''cappucino'', large_COF006),
     (''caramel macchiato'', large_COF007), (''caramel mac'', large_COF007),
     (''caramel mach'', large_COF007), (''macchiato'', large_COF007),
     (''mocha latte'', large_COF008), (''mocha'', large_COF008),
     (''chocolate latte'', large_COF008), (''choc latte'', large_COF008),
     (''caramel mocha latte'', large_COF009), (''caramel mocha'', large_COF009),
     (''caramel choc latte'', large_COF009)]"
  by (simp only: build_alias_map_def register_item_def LARGE_MENU_simps large_item_simps eval_alist)

lemma latte_normalized:
  "normalize_text (handle_corrections ''pumpkin spice latte'') = ''pumpkin spice latte''"
  by (simp add: text_defs char_tables)

lemma latte_candidates:
  "sort_key m_start (found_mentions (build_alias_map LARGE_MENU) ''pumpkin spice latte'')
     = [mention_spice, mention_spice_latte, mention_latte]"
  unfolding large_alias_map mention_spice_def mention_spice_latte_def mention_latte_def
  by (simp add: found_mentions_def text_defs char_tables)

lemma latte_filtered:
  "filtered_mentions (build_alias_map LARGE_MENU) ''pumpkin spice latte''
     = [mention_spice_latte]"
  unfolding filtered_mentions_def latte_candidates mention_spice_def mention_spice_latte_def
    mention_latte_def
  by (simp add: resolve_overlaps.simps scan_filtered.simps overlaps_def)

lemma large_modifier_map:
  "build_modifier_map LARGE_MENU =
    [(''with sprinkles'', ''sprinkles''), (''sprinkled'', ''sprinkles''),
     (''rainbow sprinkles'', ''sprinkles''), (''colored sprinkles'', ''sprinkles''),
     (''with cream'', ''cream''), (''creamer'', ''cream''), (''sweet'', ''sugar''),
     (''whipped cream'', ''whip''), (''no whipped cream'', ''no whip''),
     (''almond'', ''almond milk''), (''oat'', ''oat milk''), (''skim'', ''skim milk'')]"
  by (simp add: build_modifier_map_def LARGE_MENU_simps large_item_simps lower_def char_tables)

lemma latte_item:
  "make_cart_item LARGE_MENU ''pumpkin spice latte'' mention_spice_latte
     = Inr \<lparr>sku = ''COF002'', name = ''Pumpkin Spice Latte'', quantity = 1,
            size = Some ''medium'', modifiers = [], price = 509 / 100\<rparr>"
  by (simp add: make_cart_item_def mention_spice_latte_def context_of_def extract_quantity_def
      number_words_def isdigit_def int_of_digits_def extract_size_def extract_modifiers_def
      large_modifier_map calculate_price_def LARGE_MENU_simps large_item_simps
      text_defs char_tables)

lemma latte_items:
  "find_all_items LARGE_MENU ''pumpkin spice latte''
     = Inr [\<lparr>sku = ''COF002'', name = ''Pumpkin Spice Latte'', quantity = 1,
            size = Some ''medium'', modifiers = [], price = 509 / 100\<rparr>]"
  by (simp add: find_all_items_def latte_filtered latte_item)

text \<open>
  Claim C1.  For every alias index and text the candidates, all whole-word matches of all
  aliases, are processed in ascending order of their start; the mentions that the finder
  returns overlap nowhere; a candidate that overlaps no accepted mention is accepted, and
  one that overlaps an accepted mention replaces it when its alias is strictly longer and
  is dropped otherwise; hence a candidate whose alias is strictly longer than that of every
  other candidate overlapping it is returned, and no other returned mention overlaps it.
  On the large menu the text \<open>pumpkin spice latte\<close> holds the overlapping candidates
  \<open>pumpkin spice\<close>, \<open>pumpkin spice latte\<close> and \<open>latte\<close>, and one cart item results, that of
  the longest alias.
\<close>

theorem find_mentions_greedy:
  "sorted (map m_start (sort_key m_start (found_mentions alias_map text)))
   \<and> filtered_mentions alias_map text
       = resolve_overlaps (sort_key m_start (found_mentions alias_map text)) []
   \<and> (\<forall>i j. i < j \<and> j < length (filtered_mentions alias_map text) \<longrightarrow>
          \<not> overlaps (filtered_mentions alias_map text ! i) (filtered_mentions alias_map text ! j))
   \<and> (\<forall>pre c post. sort_key m_start (found_mentions alias_map text) = pre @ c # post \<longrightarrow>
          ((\<forall>p \<in> set (resolve_overlaps pre []). \<not> overlaps c p) \<longrightarrow>
              resolve_overlaps (pre @ [c]) [] = resolve_overlaps pre [] @ [c])
        \<and> (\<forall>p \<in> set (resolve_overlaps pre []). overlaps c p \<longrightarrow>
              resolve_overlaps (pre @ [c]) []
                = (if length (m_alias p) < length (m_alias c)
                   then remove1 p (resolve_overlaps pre []) @ [c]
                   else resolve_overlaps pre [])))
   \<and> (\<forall>P \<in> set (found_mentions alias_map text).
          (\<forall>Q \<in> set (found_mentions alias_map text).
              overlaps Q P \<longrightarrow> Q = P \<or> length (m_alias Q) < length (m_alias P)) \<longrightarrow>
          P \<in> set (filtered_mentions alias_map text)
          \<and> (\<forall>Q \<in> set (filtered_mentions alias_map text). Q \<noteq> P \<longrightarrow> \<not> overlaps Q P))
   \<and> sort_key m_start (found_mentions (build_alias_map LARGE_MENU) ''pumpkin spice latte'')
       = [mention_spice, mention_spice_latte, mention_latte]
   \<and> overlaps mention_latte mention_spice_latte
   \<and> find_all_items LARGE_MENU ''pumpkin spice latte''
       = Inr [\<lparr>sku = ''COF002'', name = ''Pumpkin Spice Latte'', quantity = 1,
               size = Some ''medium'', modifiers = [], price = 509 / 100\<rparr>]"
proof -
  define cands where "cands = sort_key m_start (found_mentions alias_map text)"
  have so: "sorted (map m_start cands)" by (simp add: cands_def)
  have sc: "set cands = set (found_mentions alias_map text)" by (simp add: cands_def)
  have wins: "\<forall>P \<in> set (found_mentions alias_map text).
          (\<forall>Q \<in> set (found_mentions alias_map text).
              overlaps Q P \<longrightarrow> Q = P \<or> length (m_alias Q) < length (m_alias P)) \<longrightarrow>
          P \<in> set (filtered_mentions alias_map text)
          \<and> (\<forall>Q \<in> set (filtered_mentions alias_map text). Q \<noteq> P \<longrightarrow> \<not> overlaps Q P)"
  proof (intro ballI impI)
    fix P assume P: "P \<in> set (found_mentions alias_map text)"
      and H: "\<forall>Q \<in> set (found_mentions alias_map text).
              overlaps Q P \<longrightarrow> Q = P \<or> length (m_alias Q) < length (m_alias P)"
    have P': "P \<in> set cands" using P sc by simp
    have H': "\<forall>Q \<in> set cands. overlaps Q P \<longrightarrow> Q = P \<or> longer P Q"
      using H sc by (simp add: longer_def)
    show "P \<in> set (filtered_mentions alias_map text)
          \<and> (\<forall>Q \<in> set (filtered_mentions alias_map text). Q \<noteq> P \<longrightarrow> \<not> overlaps Q P)"
      using longest_wins [OF so P' H'] by (simp add: filtered_mentions_def cands_def)
  qed
  have ov: "overlaps mention_latte mention_spice_latte"
    by (simp add: overlaps_def mention_latte_def mention_spice_latte_def)
  note R = find_mentions_rules [of alias_map "text"]
  show ?thesis
    apply (intro conjI)
           apply (rule R [THEN conjunct1])
          apply (rule R [THEN conjunct2, THEN conjunct1])
         apply (rule R [THEN conjunct2, THEN conjunct2, THEN conjunct1])
        apply (rule R [THEN conjunct2, THEN conjunct2, THEN conjunct2])
       apply (rule wins)
      apply (rule latte_candidates)
     apply (rule ov)
    apply (rule latte_items)
    done
qed

theorem find_mentions_greedy_witness:
  "resolve_overlaps ([mention_spice] @ [mention_spice_latte]) [] = [mention_spice_latte]
   \<and> mention_spice_latte \<in> set (filtered_mentions (build_alias_map LARGE_MENU) ''pumpkin spice latte'')
   \<and> mention_latte \<notin> set (filtered_mentions (build_alias_map LARGE_MENU) ''pumpkin spice latte'')"
proof -
  note T = find_mentions_greedy [of "build_alias_map LARGE_MENU" "''pumpkin spice latte''"]
  have split: "sort_key m_start (found_mentions (build_alias_map LARGE_MENU) ''pumpkin spice latte'')
      = [mention_spice] @ mention_spice_latte # [mention_latte]"
    by (simp add: latte_candidates)
  have acc: "resolve_overlaps [mention_spice] [] = [mention_spice]"
    by (simp add: resolve_overlaps.simps scan_filtered.simps)
  have ovl: "overlaps mention_spice_latte mention_spice"
    by (simp add: overlaps_def mention_spice_def mention_spice_latte_def)
  have len: "length (m_alias mention_spice) < length (m_alias mention_spice_latte)"
    by (simp add: mention_spice_def mention_spice_latte_def)
  from T have "\<forall>pre c post.
       sort_key m_start (found_mentions (build_alias_map LARGE_MENU) ''pumpkin spice latte'')
         = pre @ c # post \<longrightarrow>
       (\<forall>p \<in> set (resolve_overlaps pre []). overlaps c p \<longrightarrow>
              resolve_overlaps (pre @ [c]) []
                = (if length (m_alias p) < length (m_alias c)
                   then remove1 p (resolve_overlaps pre []) @ [c]
                   else resolve_overlaps pre []))"
    by blast
  from this [rule_format, OF split, of mention_spice]
  have step: "resolve_overlaps ([mention_spice] @ [mention_spice_latte]) [] = [mention_spice_latte]"
    using acc ovl len by simp
  have found: "set (found_mentions (build_alias_map LARGE_MENU) ''pumpkin spice latte'')
      = {mention_spice, mention_spice_latte, mention_latte}"
    using arg_cong [OF latte_candidates, of set] by simp
  have longest: "\<forall>Q \<in> set (found_mentions (build_alias_map LARGE_MENU) ''pumpkin spice latte'').
      overlaps Q mention_spice_latte \<longrightarrow>
      Q = mention_spice_latte \<or> length (m_alias Q) < length (m_alias mention_spice_latte)"
    unfolding found
    by (simp add: mention_spice_def mention_spice_latte_def mention_latte_def)
  from T have "\<forall>P \<in> set (found_mentions (build_alias_map LARGE_MENU) ''pumpkin spice latte'').
          (\<forall>Q \<in> set (found_mentions (build_alias_map LARGE_MENU) ''pumpkin spice latte'').
              overlaps Q P \<longrightarrow> Q = P \<or> length (m_alias Q) < length (m_alias P)) \<longrightarrow>
          P \<in> set (filtered_mentions (build_alias_map LARGE_MENU) ''pumpkin spice latte'')
          \<and> (\<forall>Q \<in> set (filtered_mentions (build_alias_map LARGE_MENU) ''pumpkin spice latte'').
                Q \<noteq> P \<longrightarrow> \<not> overlaps Q P)"
    by blast
  from this [rule_format, of mention_spice_latte] longest
  have win: "mention_spice_latte \<in> set (filtered_mentions (build_alias_map LARGE_MENU) ''pumpkin spice latte'')"
    and others: "\<forall>Q \<in> set (filtered_mentions (build_alias_map LARGE_MENU) ''pumpkin spice latte'').
                Q \<noteq> mention_spice_latte \<longrightarrow> \<not> overlaps Q mention_spice_latte"
    unfolding found by simp_all
  have "overlaps mention_latte mention_spice_latte" "mention_latte \<noteq> mention_spice_latte"
    by (simp_all add: overlaps_def mention_latte_def mention_spice_latte_def)
  then have "mention_latte \<notin> set (filtered_mentions (build_alias_map LARGE_MENU) ''pumpkin spice latte'')"
    using others by blast
  then show ?thesis using step win by simp
qed

subsection \<open>Merging duplicates, at concrete carts\<close>

theorem merge_duplicates_spec_witness:
  "list_all (\<lambda>it. distinct (modifiers it)) (items merge_example)
   \<and> map quantity (items (merge_duplicates merge_example)) = [4, 1]
   \<and> map identity_key (items (merge_duplicates merge_example))
       = [(''COF001'', Some ''medium'', {''cream''}), (''DON002'', None, {''sprinkles''})]
   \<and> total (merge_duplicates merge_example) = 945 / 100
   \<and> list_all (\<lambda>it. distinct (modifiers it))
        (items (foldl add_item empty_cart
           [\<lparr>sku = ''COF002'', name = ''Pumpkin Spice Latte'', quantity = 1,
             size = Some ''medium'', modifiers = [], price = 509 / 100\<rparr>]))"
proof -
  have h: "\<forall>it \<in> set (items merge_example). distinct (modifiers it)"
    by (simp add: merge_example_def dup_item_a_def donut_item_def)
  note T = merge_duplicates_spec [of merge_example LARGE_MENU "''pumpkin spice latte''"
      "[\<lparr>sku = ''COF002'', name = ''Pumpkin Spice Latte'', quantity = 1,
         size = Some ''medium'', modifiers = [], price = 509 / 100\<rparr>]"]
  from T h have keyed: "distinct (map identity_key (items (merge_duplicates merge_example)))
    \<and> (\<forall>it \<in> set (items (merge_duplicates merge_example)).
           quantity it = sum_list (map quantity
              (filter (\<lambda>x. identity_key x = identity_key it) (items merge_example))))
    \<and> map identity_key (items (merge_duplicates merge_example))
          = first_occurrences (map identity_key (items merge_example))"
    by blast
  from T latte_items have built: "\<forall>it \<in> set (items (foldl add_item empty_cart
           [\<lparr>sku = ''COF002'', name = ''Pumpkin Spice Latte'', quantity = 1,
             size = Some ''medium'', modifiers = [], price = 509 / 100\<rparr>])). distinct (modifiers it)"
    by blast
  have order: "first_occurrences (map identity_key (items merge_example))
       = [(''COF001'', Some ''medium'', {''cream''}), (''DON002'', None, {''sprinkles''})]"
    by (simp add: merge_example_def dup_item_a_def donut_item_def identity_key_def)
  have vals: "map quantity (items (merge_duplicates merge_example)) = [4, 1]
      \<and> total (merge_duplicates merge_example) = 945 / 100"
    by (simp add: merge_duplicates_def merge_item_def key_of_def merge_example_def
        dup_item_a_def donut_item_def Let_def line_total_def)
  show ?thesis
    using h keyed built order vals by (simp add: list_all_iff)
qed

end
